theory Spec2Isabelle
  imports Complex_Main
begin

section \<open>European digital slope pricing engine\<close>

text \<open>
  A shallow embedding of the package \<^verbatim>\<open>european_digital_slope\<close>:
  \<^verbatim>\<open>black_scholes.py\<close>, \<^verbatim>\<open>utils.py\<close>, \<^verbatim>\<open>risk_markup.py\<close>,
  \<^verbatim>\<open>underlying_config.py\<close>, \<^verbatim>\<open>constants.py\<close> and \<^verbatim>\<open>pricing_engine.py\<close>.

  Numbers. The Python code computes with IEEE doubles. Here every \<^verbatim>\<open>float\<close> is a
  \<^typ>\<open>real\<close>: rounding, infinities and NaN are not represented, decimal literals such
  as \<^verbatim>\<open>0.03\<close> are the rationals they denote, and \<^verbatim>\<open>np.finfo(float).eps\<close> is
  \<open>2 ^ 52\<close> inverted. All statements below are statements about this exact-arithmetic
  reading of the code.

  Errors. Every \<^verbatim>\<open>raise\<close> of the source, and every exception of a Python builtin that
  the modelled code can trigger (\<^verbatim>\<open>min\<close> of an empty sequence, a missing dictionary
  key), is a value \<open>Inl e\<close> of a sum type.
\<close>

subsection \<open>Errors\<close>

datatype py_error =
    ValueError string
  | KeyError
  | IndexError
  | TypeError
  | AttributeError

type_synonym 'a result = "py_error + 'a"

definition bind :: "'a result \<Rightarrow> ('a \<Rightarrow> 'b result) \<Rightarrow> 'b result" where
  "bind m f = (case m of Inl e \<Rightarrow> Inl e | Inr x \<Rightarrow> f x)"

subsection \<open>constants.py\<close>

definition POTENTIAL_ARBITRAGE_DURATION :: real where
  "POTENTIAL_ARBITRAGE_DURATION = 18060"

text \<open>
  The dataclass \<^verbatim>\<open>PricingParameters\<close> annotates its fields but does not enforce the
  annotations, so the field \<^verbatim>\<open>contract_type\<close> can hold a value that is no member of
  the enumeration; \<^verbatim>\<open>_validate_parameters\<close> tests for that. The type of the field is
  therefore the four members together with \<open>NotContractType s\<close>, which stands for any
  Python value that \<^verbatim>\<open>ContractType\<close> does not contain (neither a member nor the value of
  a member), \<open>s\<close> being the text it prints as. Likewise for \<^verbatim>\<open>PricingCurrency\<close>.
\<close>

datatype ContractType = CALL | PUT | EXPIRYMISS | EXPIRYRANGE | NotContractType string

datatype PricingCurrency = BASE | NUMERAIRE | QUANTO | NotPricingCurrency string

text \<open>The members, as iterating over the enumeration lists them.\<close>

definition ContractType_members :: "ContractType list" where
  "ContractType_members = [CALL, PUT, EXPIRYMISS, EXPIRYRANGE]"

definition PricingCurrency_members :: "PricingCurrency list" where
  "PricingCurrency_members = [BASE, NUMERAIRE, QUANTO]"

text \<open>The text that an f-string prints for the value of the field.\<close>

fun str_ContractType :: "ContractType \<Rightarrow> string" where
  "str_ContractType CALL = ''ContractType.CALL''"
| "str_ContractType PUT = ''ContractType.PUT''"
| "str_ContractType EXPIRYMISS = ''ContractType.EXPIRYMISS''"
| "str_ContractType EXPIRYRANGE = ''ContractType.EXPIRYRANGE''"
| "str_ContractType (NotContractType s) = s"

subsection \<open>The standard normal distribution (\<^verbatim>\<open>scipy.stats.norm\<close>)\<close>

text \<open>
  \<^verbatim>\<open>norm.pdf\<close> and \<^verbatim>\<open>norm.cdf\<close> are library functions, not code of the package. The
  density is the closed form; the distribution function is its antiderivative with
  value \<open>1/2\<close> at \<open>0\<close>, written as the power series obtained by integrating the
  exponential series of the density term by term.
\<close>

definition norm_pdf :: "real \<Rightarrow> real" where
  "norm_pdf x = exp (- (x ^ 2) / 2) / sqrt (2 * pi)"

definition cdf_term :: "real \<Rightarrow> nat \<Rightarrow> real" where
  "cdf_term x n = (- 1) ^ n * x ^ (2 * n + 1) / (2 ^ n * fact n * real (2 * n + 1))"

definition norm_cdf :: "real \<Rightarrow> real" where
  "norm_cdf x = 1 / 2 + (\<Sum>n. cdf_term x n) / sqrt (2 * pi)"

subsection \<open>black_scholes.py\<close>

text \<open>
  \<^verbatim>\<open>d1\<close> begins with the guard \<^verbatim>\<open>if vol <= 0 or time <= 0: return float("inf")\<close>.
  An infinite float has no counterpart in \<^typ>\<open>real\<close>. Every caller of \<^verbatim>\<open>d1\<close> in
  \<^verbatim>\<open>black_scholes.py\<close> tests the same condition first and returns before calling
  \<^verbatim>\<open>d1\<close>, so the guard never fires from the functions modelled here; \<open>d1\<close> below is
  the formula of the other branch, and is only meant for \<open>vol > 0\<close> and \<open>time > 0\<close>.

  Division and logarithm are total on \<^typ>\<open>real\<close> (\<open>x / 0 = 0\<close>, \<open>ln 0 = 0\<close>), whereas
  \<^verbatim>\<open>spot / strike\<close> raises \<^verbatim>\<open>ZeroDivisionError\<close> at strike 0 and \<^verbatim>\<open>np.log\<close> of a
  ratio that is not positive is infinite or NaN. The functions of this section model
  the code for \<open>spot > 0\<close> and \<open>strike > 0\<close> only, and every statement about their
  values below carries these two hypotheses.
\<close>

definition d1 :: "real \<Rightarrow> real \<Rightarrow> real \<Rightarrow> real \<Rightarrow> real \<Rightarrow> real \<Rightarrow> real" where
  "d1 spot strike time rate divd vol =
     (ln (spot / strike) + (rate - divd + 0.5 * vol * vol) * time) / (vol * sqrt time)"

definition d2 :: "real \<Rightarrow> real \<Rightarrow> real \<Rightarrow> real" where
  "d2 d1_value vol time = d1_value - vol * sqrt time"

definition binary_call :: "real \<Rightarrow> real \<Rightarrow> real \<Rightarrow> real \<Rightarrow> real \<Rightarrow> real \<Rightarrow> real" where
  "binary_call spot strike time rate divd vol =
     (if vol \<le> 0 \<or> time \<le> 0 then (if spot > strike then 1 else 0)
      else let d1_val = d1 spot strike time rate divd vol;
               d2_val = d2 d1_val vol time
           in exp (- rate * time) * norm_cdf d2_val)"

definition binary_put :: "real \<Rightarrow> real \<Rightarrow> real \<Rightarrow> real \<Rightarrow> real \<Rightarrow> real \<Rightarrow> real" where
  "binary_put spot strike time rate divd vol =
     (if vol \<le> 0 \<or> time \<le> 0 then (if spot < strike then 1 else 0)
      else let d1_val = d1 spot strike time rate divd vol;
               d2_val = d2 d1_val vol time
           in exp (- rate * time) * norm_cdf (- d2_val))"

definition vanilla_call :: "real \<Rightarrow> real \<Rightarrow> real \<Rightarrow> real \<Rightarrow> real \<Rightarrow> real \<Rightarrow> real" where
  "vanilla_call spot strike time rate divd vol =
     (if vol \<le> 0 \<or> time \<le> 0 then max 0 (spot - strike)
      else let d1_val = d1 spot strike time rate divd vol;
               d2_val = d2 d1_val vol time
           in spot * exp (- divd * time) * norm_cdf d1_val
              - strike * exp (- rate * time) * norm_cdf d2_val)"

definition vanilla_put :: "real \<Rightarrow> real \<Rightarrow> real \<Rightarrow> real \<Rightarrow> real \<Rightarrow> real \<Rightarrow> real" where
  "vanilla_put spot strike time rate divd vol =
     (if vol \<le> 0 \<or> time \<le> 0 then max 0 (strike - spot)
      else let d1_val = d1 spot strike time rate divd vol;
               d2_val = d2 d1_val vol time
           in strike * exp (- rate * time) * norm_cdf (- d2_val)
              - spot * exp (- divd * time) * norm_cdf (- d1_val))"

definition delta_binary_call :: "real \<Rightarrow> real \<Rightarrow> real \<Rightarrow> real \<Rightarrow> real \<Rightarrow> real \<Rightarrow> real" where
  "delta_binary_call spot strike time rate divd vol =
     (if vol \<le> 0 \<or> time \<le> 0 then 0
      else let d1_val = d1 spot strike time rate divd vol;
               d2_val = d2 d1_val vol time
           in exp (- rate * time) * norm_pdf d2_val / (spot * vol * sqrt time))"

definition delta_binary_put :: "real \<Rightarrow> real \<Rightarrow> real \<Rightarrow> real \<Rightarrow> real \<Rightarrow> real \<Rightarrow> real" where
  "delta_binary_put spot strike time rate divd vol =
     - delta_binary_call spot strike time rate divd vol"

definition vega_binary_call :: "real \<Rightarrow> real \<Rightarrow> real \<Rightarrow> real \<Rightarrow> real \<Rightarrow> real \<Rightarrow> real" where
  "vega_binary_call spot strike time rate divd vol =
     (if vol \<le> 0 \<or> time \<le> 0 then 0
      else let d1_val = d1 spot strike time rate divd vol;
               d2_val = d2 d1_val vol time
           in - exp (- rate * time) * norm_pdf d2_val * d2_val / vol)"

definition vega_binary_put :: "real \<Rightarrow> real \<Rightarrow> real \<Rightarrow> real \<Rightarrow> real \<Rightarrow> real \<Rightarrow> real" where
  "vega_binary_put spot strike time rate divd vol =
     - vega_binary_call spot strike time rate divd vol"

definition vega_vanilla_call :: "real \<Rightarrow> real \<Rightarrow> real \<Rightarrow> real \<Rightarrow> real \<Rightarrow> real \<Rightarrow> real" where
  "vega_vanilla_call spot strike time rate divd vol =
     (if vol \<le> 0 \<or> time \<le> 0 then 0
      else let d1_val = d1 spot strike time rate divd vol
           in spot * exp (- divd * time) * sqrt time * norm_pdf d1_val)"

definition vega_vanilla_put :: "real \<Rightarrow> real \<Rightarrow> real \<Rightarrow> real \<Rightarrow> real \<Rightarrow> real \<Rightarrow> real" where
  "vega_vanilla_put spot strike time rate divd vol =
     vega_vanilla_call spot strike time rate divd vol"

definition price_binary_option ::
  "ContractType \<Rightarrow> real \<Rightarrow> real \<Rightarrow> real \<Rightarrow> real \<Rightarrow> real \<Rightarrow> real \<Rightarrow> real result" where
  "price_binary_option contract_type spot strike time rate divd vol =
     (if contract_type = CALL then Inr (binary_call spot strike time rate divd vol)
      else if contract_type = PUT then Inr (binary_put spot strike time rate divd vol)
      else Inl (ValueError (''Unsupported contract type: '' @ str_ContractType contract_type)))"

subsection \<open>Python builtins used by the package\<close>

text \<open>
  A \<^verbatim>\<open>dict\<close> is an association list; \<open>map_of\<close> looks a key up and \<open>map fst\<close> lists
  the keys. \<^verbatim>\<open>min\<close> and \<^verbatim>\<open>max\<close> keep the first extremal element they meet and raise
  \<^verbatim>\<open>ValueError\<close> on an empty sequence.
\<close>

type_synonym ('k, 'v) dict = "('k \<times> 'v) list"

definition getitem :: "('k, 'v) dict \<Rightarrow> 'k \<Rightarrow> 'v result" where
  "getitem d k = (case map_of d k of None \<Rightarrow> Inl KeyError | Some v \<Rightarrow> Inr v)"

fun traverse :: "('a \<Rightarrow> 'b result) \<Rightarrow> 'a list \<Rightarrow> 'b list result" where
  "traverse f [] = Inr []"
| "traverse f (x # xs) = bind (f x) (\<lambda>y. bind (traverse f xs) (\<lambda>ys. Inr (y # ys)))"

fun min_key_from :: "('a \<Rightarrow> real) \<Rightarrow> 'a \<Rightarrow> 'a list \<Rightarrow> 'a" where
  "min_key_from key best [] = best"
| "min_key_from key best (x # xs) = min_key_from key (if key x < key best then x else best) xs"

definition py_min_key :: "('a \<Rightarrow> real) \<Rightarrow> 'a list \<Rightarrow> 'a result" where
  "py_min_key key xs =
     (case xs of [] \<Rightarrow> Inl (ValueError ''min() arg is an empty sequence'')
      | x # rest \<Rightarrow> Inr (min_key_from key x rest))"

definition py_min :: "int list \<Rightarrow> int result" where
  "py_min xs =
     (case xs of [] \<Rightarrow> Inl (ValueError ''min() arg is an empty sequence'')
      | x # rest \<Rightarrow> Inr (foldl (\<lambda>best y. if y < best then y else best) x rest))"

definition py_max :: "int list \<Rightarrow> int result" where
  "py_max xs =
     (case xs of [] \<Rightarrow> Inl (ValueError ''max() arg is an empty sequence'')
      | x # rest \<Rightarrow> Inr (foldl (\<lambda>best y. if y > best then y else best) x rest))"

text \<open>\<^verbatim>\<open>xs[i]\<close>: a negative index counts from the end, an index out of range raises.\<close>

definition py_index :: "'a list \<Rightarrow> int \<Rightarrow> 'a result" where
  "py_index xs i =
     (if 0 \<le> i \<and> i < int (length xs) then Inr (xs ! nat i)
      else if i < 0 \<and> - int (length xs) \<le> i then Inr (xs ! nat (int (length xs) + i))
      else Inl IndexError)"

definition startswith :: "string \<Rightarrow> string \<Rightarrow> bool" where
  "startswith s pre = (take (length pre) s = pre)"

definition endswith :: "string \<Rightarrow> string \<Rightarrow> bool" where
  "endswith s suf = (length suf \<le> length s \<and> drop (length s - length suf) s = suf)"

text \<open>
  \<^verbatim>\<open>str.lower\<close>, on the ASCII letters. (Python also folds letters outside ASCII; a
  \<^typ>\<open>string\<close> here is a list of bytes, and bytes above 127 are left as they are.)
\<close>

definition lower_char :: "char \<Rightarrow> char" where
  "lower_char c =
     (if of_char CHR ''A'' \<le> (of_char c :: nat) \<and> (of_char c :: nat) \<le> of_char CHR ''Z''
      then char_of (of_char c + (32::nat)) else c)"

definition lower :: "string \<Rightarrow> string" where
  "lower s = map lower_char s"

text \<open>
  A \<^verbatim>\<open>datetime\<close> is a count of microseconds; \<^verbatim>\<open>(a - b).total_seconds()\<close> is the
  difference in seconds.
\<close>

type_synonym datetime = int

definition total_seconds :: "datetime \<Rightarrow> datetime \<Rightarrow> real" where
  "total_seconds a b = real_of_int (a - b) / 1000000"

subsection \<open>utils.py\<close>

text \<open>
  The surface is \<^verbatim>\<open>{tenor_days: {"smile": {delta_point: vol}, "rr": ..., ...}}\<close>: a
  dictionary from tenors to dictionaries from table names to tables.
\<close>

type_synonym smile = "(int, real) dict"
type_synonym tenor_entry = "(string, smile) dict"
type_synonym VolSurface = "(int, tenor_entry) dict"

definition calculate_time_to_expiry :: "datetime \<Rightarrow> datetime \<Rightarrow> real" where
  "calculate_time_to_expiry start_date expiry_date =
     (let days = total_seconds expiry_date start_date / (24 * 60 * 60);
          epsilon = 1 / 2 ^ 52
      in min 730 (max epsilon days) / 365)"

text \<open>
  In \<open>get_volatility_from_surface\<close> the logarithm of \<open>strike / forward\<close> is, in the
  code, a finite number only when spot and strike are positive (otherwise the coordinate
  is infinite or NaN and the comparisons behave differently); the function models the
  code on that domain, and the statements below that depend on which value or error it
  gives assume it.
\<close>

definition get_volatility_from_surface ::
  "VolSurface \<Rightarrow> real \<Rightarrow> real \<Rightarrow> real \<Rightarrow> real \<Rightarrow> real \<Rightarrow> real result" where
  "get_volatility_from_surface surface spot strike tte q r =
     (let tenors = sort (map fst surface) in
      bind (py_min_key (\<lambda>x. \<bar>real_of_int x - tte * 365\<bar>) tenors) (\<lambda>tenor.
      bind (getitem surface tenor) (\<lambda>entry.
      bind (getitem entry ''smile'') (\<lambda>smile_data.
        let forward = spot * exp ((r - q) * tte);
            moneyness = ln (strike / forward);
            deltas = sort (map fst smile_data)
        in bind (traverse (getitem smile_data) deltas) (\<lambda>vols.
        let delta = 50 + (moneyness / (2 * pi)) * 100 in
        bind (py_min deltas) (\<lambda>lo.
        if delta \<le> real_of_int lo then py_index vols 0
        else bind (py_max deltas) (\<lambda>hi.
        if delta \<ge> real_of_int hi then py_index vols (- 1)
        else
          (case find (\<lambda>i. real_of_int (deltas ! i) \<le> delta \<and> delta \<le> real_of_int (deltas ! (i + 1)))
                  [0 ..< length deltas - 1] of
             Some i \<Rightarrow>
               let w = (delta - real_of_int (deltas ! i))
                         / (real_of_int (deltas ! (i + 1)) - real_of_int (deltas ! i))
               in Inr (vols ! i * (1 - w) + vols ! (i + 1) * w)
           | None \<Rightarrow> getitem smile_data 50))))))))"

definition is_forward_starting :: "datetime \<Rightarrow> datetime \<Rightarrow> bool" where
  "is_forward_starting pricing_date start_date = (total_seconds start_date pricing_date > 5)"

definition is_intraday :: "real \<Rightarrow> bool" where
  "is_intraday tte = (tte \<le> 1 / 365)"

subsection \<open>underlying_config.py\<close>

record UnderlyingConfig =
  market :: string
  submarket :: string
  uc_pip_size :: real
  uc_spot_spread_size :: "real option"

definition by_symbol :: "string \<Rightarrow> UnderlyingConfig" where
  "by_symbol symbol =
     (if startswith symbol ''frx''
      then \<lparr>market = ''forex'', submarket = '''', uc_pip_size = 0.0001, uc_spot_spread_size = Some 50\<rparr>
      else \<lparr>market = ''indices'', submarket = '''', uc_pip_size = 0.01, uc_spot_spread_size = Some 50\<rparr>)"

subsection \<open>risk_markup.py\<close>

text \<open>
  \<^verbatim>\<open>hour_end_markup_parameters\<close> is an \<^verbatim>\<open>Optional[Dict[str, Any]]\<close>. The code reads
  a number under \<^verbatim>\<open>"current_spot"\<close> and a dictionary of numbers under \<^verbatim>\<open>"high_low"\<close>;
  the values are modelled as one or the other, and using one where the other is expected
  raises as Python does.
\<close>

datatype hour_end_value = HNum real | HDict "(string, real) dict"

record MarkupParameters =
  spot_spread_size :: real
  pip_size :: real
  vol_spread :: real
  equal_tie_amount :: real
  model_arbitrage_amount :: real
  smile_uncertainty_amount :: real
  hour_end_markup_parameters :: "(string, hour_end_value) dict option"

definition MarkupParameters_default :: MarkupParameters where
  "MarkupParameters_default =
     \<lparr>spot_spread_size = 50, pip_size = 0.0001, vol_spread = 0.01, equal_tie_amount = 0.01,
      model_arbitrage_amount = 0.05, smile_uncertainty_amount = 0.05,
      hour_end_markup_parameters = None\<rparr>"

text \<open>The three placeholder rules: each \<^verbatim>\<open>calculate_markup\<close> returns a constant.\<close>

definition HourEndMarkup_calculate_markup ::
  "(string, hour_end_value) dict \<Rightarrow> real \<Rightarrow> real \<Rightarrow> real" where
  "HourEndMarkup_calculate_markup hour_end_params spot_min spot_max = 0"

definition EqualTieMarkup_calculate_markup :: "string \<Rightarrow> real \<Rightarrow> real" where
  "EqualTieMarkup_calculate_markup symbol tte = 0.01"

definition ModelArbitrageMarkup_calculate_markup :: real where
  "ModelArbitrageMarkup_calculate_markup = 0.05"

record RiskMarkup =
  rm_is_atm :: bool
  rm_is_forward_starting :: bool
  rm_time_to_expiry :: real
  rm_market_type :: string
  rm_for_sale :: bool
  rm_params :: MarkupParameters
  rm_debug_info :: "string \<rightharpoonup> real"

definition RiskMarkup_init ::
  "bool \<Rightarrow> bool \<Rightarrow> real \<Rightarrow> string \<Rightarrow> bool \<Rightarrow> MarkupParameters option \<Rightarrow> RiskMarkup" where
  "RiskMarkup_init atm fwd tte mkt sale parameters =
     \<lparr>rm_is_atm = atm, rm_is_forward_starting = fwd, rm_time_to_expiry = tte,
      rm_market_type = lower mkt, rm_for_sale = sale,
      rm_params = (case parameters of None \<Rightarrow> MarkupParameters_default | Some mp \<Rightarrow> mp),
      rm_debug_info = Map.empty\<rparr>"

definition apply_traded_market_markup :: "RiskMarkup \<Rightarrow> bool" where
  "apply_traded_market_markup self =
     (rm_market_type self \<in> set [''forex'', ''commodities'', ''indices'']
      \<or> list_ex (endswith (rm_market_type self))
            [''_basket'', ''forex_basket'', ''commodity_basket''])"

definition apply_smile_uncertainty_markup :: "RiskMarkup \<Rightarrow> bool" where
  "apply_smile_uncertainty_markup self =
     (rm_market_type self = ''indices'' \<and> rm_time_to_expiry self < 7 / 365 \<and> \<not> rm_is_atm self)"

definition apply_equal_tie_markup :: "RiskMarkup \<Rightarrow> bool" where
  "apply_equal_tie_markup self = True"

text \<open>
  The hour-end block of \<^verbatim>\<open>calculate_total_markup\<close>:
  \<^verbatim>\<open>params.get("current_spot", 0)\<close>, \<^verbatim>\<open>params.get("high_low", {}).get(key, 0)\<close>, and
  \<^verbatim>\<open>min\<close>/\<^verbatim>\<open>max\<close> of the two.
\<close>

definition high_low_get :: "(string, hour_end_value) dict \<Rightarrow> string \<Rightarrow> real result" where
  "high_low_get hour_end_params k =
     (case map_of hour_end_params ''high_low'' of
        None \<Rightarrow> Inr 0
      | Some (HDict d) \<Rightarrow> Inr (case map_of d k of None \<Rightarrow> 0 | Some x \<Rightarrow> x)
      | Some (HNum x) \<Rightarrow> Inl AttributeError)"

definition compare_num :: "(real \<Rightarrow> real \<Rightarrow> real) \<Rightarrow> hour_end_value \<Rightarrow> real \<Rightarrow> real result" where
  "compare_num pick a b = (case a of HNum x \<Rightarrow> Inr (pick x b) | HDict d \<Rightarrow> Inl TypeError)"

definition hour_end_markup_of :: "(string, hour_end_value) dict \<Rightarrow> real result" where
  "hour_end_markup_of hour_end_params =
     (let current_spot = (case map_of hour_end_params ''current_spot'' of
                            None \<Rightarrow> HNum 0 | Some v \<Rightarrow> v) in
      bind (high_low_get hour_end_params ''low'') (\<lambda>lo.
      bind (compare_num min current_spot lo) (\<lambda>min_spot.
      bind (high_low_get hour_end_params ''high'') (\<lambda>hi.
      bind (compare_num max current_spot hi) (\<lambda>max_spot.
      Inr (HourEndMarkup_calculate_markup hour_end_params min_spot max_spot))))))"

text \<open>
  \<^verbatim>\<open>calculate_total_markup\<close> accumulates \<^verbatim>\<open>markup\<close> and writes each contribution into
  \<^verbatim>\<open>self.debug_info\<close>. The state is the pair of the running sum and the dictionary; the
  function returns the markup together with the dictionary it leaves behind.
\<close>

type_synonym markup_state = "real \<times> (string \<rightharpoonup> real)"

definition add_markup :: "string \<Rightarrow> real \<Rightarrow> markup_state \<Rightarrow> markup_state" where
  "add_markup name amount st = (fst st + amount, (snd st)(name \<mapsto> amount))"

definition traded_market_block :: "RiskMarkup \<Rightarrow> real \<Rightarrow> real \<Rightarrow> markup_state \<Rightarrow> markup_state result" where
  "traded_market_block self delta vega st0 =
     bind (case hour_end_markup_parameters (rm_params self) of
             None \<Rightarrow> Inr st0
           | Some hour_end_params \<Rightarrow>
               if hour_end_params = [] then Inr st0
               else bind (hour_end_markup_of hour_end_params) (\<lambda>hour_end_markup.
                      Inr (add_markup ''hour_end_markup'' hour_end_markup st0)))
     (\<lambda>st1.
        let st2 =
          (if \<not> (rm_is_forward_starting self \<and> \<not> apply_equal_tie_markup self) then
             let sa = (if \<not> rm_is_atm self
                       then add_markup ''vol_spread_markup''
                              (min (vol_spread (rm_params self) * \<bar>vega\<bar>) 0.7) st1
                       else st1);
                 sb = (if \<not> is_intraday (rm_time_to_expiry self)
                       then let spot_spread_base =
                                  spot_spread_size (rm_params self) * pip_size (rm_params self)
                            in add_markup ''spot_spread_markup''
                                 (max 0 (min (spot_spread_base * \<bar>delta\<bar>) 0.01)) sa
                       else sa)
             in (if apply_smile_uncertainty_markup self
                 then add_markup ''smile_uncertainty_markup''
                        (smile_uncertainty_amount (rm_params self)) sb
                 else sb)
           else st1)
        in Inr (if apply_equal_tie_markup self
                then add_markup ''equal_tie_markup''
                       (EqualTieMarkup_calculate_markup '''' (rm_time_to_expiry self)) st2
                else st2))"

definition calculate_total_markup :: "RiskMarkup \<Rightarrow> real \<Rightarrow> real \<Rightarrow> markup_state result" where
  "calculate_total_markup self delta vega =
     bind (if apply_traded_market_markup self
           then traded_market_block self delta vega (0, rm_debug_info self)
           else Inr (0, rm_debug_info self))
     (\<lambda>st.
        let st' = (if \<not> rm_for_sale self
                      \<and> rm_time_to_expiry self * 365 * 24 * 3600 \<le> POTENTIAL_ARBITRAGE_DURATION
                   then add_markup ''model_arbitrage_markup'' ModelArbitrageMarkup_calculate_markup st
                   else st);
            markup = fst st' / 2
        in Inr (markup, (snd st')(''total_markup'' \<mapsto> markup)))"

subsection \<open>pricing_engine.py\<close>

record PricingParameters =
  contract_type :: ContractType
  spot :: real
  strikes :: "real list"
  date_start :: datetime
  date_pricing :: datetime
  date_expiry :: datetime
  discount_rate :: real
  mu :: real
  vol_surface :: VolSurface
  q_rate :: real
  r_rate :: real
  priced_with :: PricingCurrency
  underlying_symbol :: string
  market_type :: string
  is_atm :: bool
  for_sale :: bool
  markup_parameters :: "MarkupParameters option"

text \<open>
  The diagnostic trace is a nested dictionary of numbers, written by \<^verbatim>\<open>_calculate\<close> and
  stored by \<^verbatim>\<open>_calculate_numeraire_probability\<close> under the contract type.
\<close>

datatype trace = TNum real | TDict "(string \<times> trace) list"

record EuropeanDigitalSlope =
  params :: PricingParameters
  time_to_expiry :: real
  risk_markup :: RiskMarkup
  debug_info :: "ContractType \<rightharpoonup> trace"

definition str_PricingCurrency :: "PricingCurrency \<Rightarrow> string" where
  "str_PricingCurrency c =
     (case c of BASE \<Rightarrow> ''PricingCurrency.BASE'' | NUMERAIRE \<Rightarrow> ''PricingCurrency.NUMERAIRE''
      | QUANTO \<Rightarrow> ''PricingCurrency.QUANTO'' | NotPricingCurrency s \<Rightarrow> s)"

definition validate_parameters :: "PricingParameters \<Rightarrow> unit result" where
  "validate_parameters p =
     (if contract_type p \<notin> set ContractType_members
      then Inl (ValueError (''Unsupported contract type: '' @ str_ContractType (contract_type p)))
      else if priced_with p \<notin> set PricingCurrency_members
      then Inl (ValueError (''Unsupported pricing currency: '' @ str_PricingCurrency (priced_with p)))
      else if length (strikes p) \<notin> set [1, 2]
      then Inl (ValueError ''Must provide either 1 or 2 strike prices'')
      else if date_expiry p \<le> date_start p
      then Inl (ValueError ''Expiry date must be after start date'')
      else Inr ())"

text \<open>\<^verbatim>\<open>__init__\<close>: validation first, then the derived values.\<close>

definition init :: "PricingParameters \<Rightarrow> EuropeanDigitalSlope result" where
  "init p =
     bind (validate_parameters p) (\<lambda>_.
       let tte = calculate_time_to_expiry (date_start p) (date_expiry p)
       in Inr \<lparr>params = p, time_to_expiry = tte,
               risk_markup = RiskMarkup_init (is_atm p)
                               (is_forward_starting (date_pricing p) (date_start p))
                               tte (market_type p) (for_sale p) (markup_parameters p),
               debug_info = Map.empty\<rparr>)"

definition get_volatility_for_strike :: "EuropeanDigitalSlope \<Rightarrow> real \<Rightarrow> real result" where
  "get_volatility_for_strike self k =
     get_volatility_from_surface (vol_surface (params self)) (spot (params self)) k
       (time_to_expiry self) (q_rate (params self)) (r_rate (params self))"

definition get_atm_volatility :: "EuropeanDigitalSlope \<Rightarrow> real result" where
  "get_atm_volatility self =
     bind (py_index (strikes (params self)) 0) (\<lambda>k.
       get_volatility_from_surface (vol_surface (params self)) (spot (params self)) k
         (time_to_expiry self) (q_rate (params self)) (r_rate (params self)))"

definition get_underlying_config :: "EuropeanDigitalSlope \<Rightarrow> UnderlyingConfig" where
  "get_underlying_config self = by_symbol (underlying_symbol (params self))"

definition get_first_tenor_on_surface :: "EuropeanDigitalSlope \<Rightarrow> int result" where
  "get_first_tenor_on_surface self = py_min (map fst (vol_surface (params self)))"

definition bs_trace :: "EuropeanDigitalSlope \<Rightarrow> real \<Rightarrow> real \<Rightarrow> real \<Rightarrow> trace" where
  "bs_trace self amount k vol =
     TDict [(''amount'', TNum amount),
            (''parameters'',
             TDict [(''spot'', TNum (spot (params self))), (''strike'', TNum k),
                    (''time'', TNum (time_to_expiry self)),
                    (''rate'', TNum (discount_rate (params self))),
                    (''div'', TNum (mu (params self))), (''vol'', TNum vol)])]"

text \<open>
  \<^verbatim>\<open>_calculate\<close>. The slope adjustment and its trace entry are computed only when the
  request is not forward starting. In the cap, \<^verbatim>\<open>and\<close> reads the first tenor of the
  surface only when the time to expiry is at most one day.
\<close>

definition slope_adjustment_of ::
  "EuropeanDigitalSlope \<Rightarrow> ContractType \<Rightarrow> real \<Rightarrow> (real \<times> trace) result" where
  "slope_adjustment_of self ct k =
     bind (get_atm_volatility self) (\<lambda>atm_vol.
       let vanilla_vega =
             (if ct = CALL
              then vega_vanilla_call (spot (params self)) k (time_to_expiry self)
                     (discount_rate (params self)) (mu (params self)) atm_vol
              else vega_vanilla_put (spot (params self)) k (time_to_expiry self)
                     (discount_rate (params self)) (mu (params self)) atm_vol);
           underlying_config = get_underlying_config self;
           pip = uc_pip_size underlying_config
       in
       bind (get_volatility_from_surface (vol_surface (params self)) (spot (params self))
               (k - pip) (time_to_expiry self) (q_rate (params self)) (r_rate (params self)))
         (\<lambda>vol_down.
       bind (get_volatility_from_surface (vol_surface (params self)) (spot (params self))
               (k + pip) (time_to_expiry self) (q_rate (params self)) (r_rate (params self)))
         (\<lambda>vol_up.
         let slope = (vol_up - vol_down) / (2 * pip);
             base_amount = (if ct = CALL then - 1 else 1);
             raw = base_amount * vanilla_vega * slope
         in
         bind (if time_to_expiry self \<le> 1 / 365
               then bind (get_first_tenor_on_surface self) (\<lambda>first_tenor.
                      Inr (if first_tenor > 7 then max (- 0.03) (min 0.03 raw) else raw))
               else Inr raw)
           (\<lambda>slope_adjustment.
              Inr (slope_adjustment,
                   TDict [(''amount'', TNum slope_adjustment),
                          (''parameters'',
                           TDict [(''vanilla_vega'', bs_trace self vanilla_vega k atm_vol),
                                  (''slope'', TNum slope)])])))))"

definition calculate :: "EuropeanDigitalSlope \<Rightarrow> ContractType \<Rightarrow> (real \<times> trace) result" where
  "calculate self ct =
     bind (py_index (strikes (params self)) 0) (\<lambda>k.
     bind (get_volatility_from_surface (vol_surface (params self)) (spot (params self)) k
             (time_to_expiry self) (q_rate (params self)) (r_rate (params self)))
       (\<lambda>vol.
     bind (price_binary_option ct (spot (params self)) k (time_to_expiry self)
             (discount_rate (params self)) (mu (params self)) vol)
       (\<lambda>bs_probability.
       let entry = (''bs_probability'', bs_trace self bs_probability k vol) in
       if \<not> is_forward_starting (date_pricing (params self)) (date_start (params self))
       then bind (slope_adjustment_of self ct k) (\<lambda>(slope_adjustment, slope_entry).
              Inr (bs_probability + slope_adjustment,
                   TDict [entry, (''slope_adjustment'', slope_entry)]))
       else Inr (bs_probability + 0, TDict [entry]))))"

definition calculate_numeraire_probability ::
  "EuropeanDigitalSlope \<Rightarrow> (real \<times> EuropeanDigitalSlope) result" where
  "calculate_numeraire_probability self =
     bind (calculate self (contract_type (params self))) (\<lambda>(prob, info).
       Inr (prob, self\<lparr>debug_info := (debug_info self)(contract_type (params self) \<mapsto> info)\<rparr>))"

definition calculate_quanto_probability :: "EuropeanDigitalSlope \<Rightarrow> real result" where
  "calculate_quanto_probability self =
     (let adjusted_mu = r_rate (params self) - q_rate (params self) in
      bind (py_index (strikes (params self)) 0) (\<lambda>k.
      bind (get_volatility_from_surface (vol_surface (params self)) (spot (params self)) k
              (time_to_expiry self) (q_rate (params self)) (r_rate (params self)))
        (\<lambda>vol.
         price_binary_option (contract_type (params self)) (spot (params self)) k
           (time_to_expiry self) (discount_rate (params self)) adjusted_mu vol)))"

definition calculate_vanilla_component :: "EuropeanDigitalSlope \<Rightarrow> real" where
  "calculate_vanilla_component self = 0"

definition calculate_base_probability_with_vanilla :: "EuropeanDigitalSlope \<Rightarrow> real result" where
  "calculate_base_probability_with_vanilla self =
     bind (py_index (strikes (params self)) 0) (\<lambda>k.
     bind (get_volatility_from_surface (vol_surface (params self)) (spot (params self)) k
             (time_to_expiry self) (q_rate (params self)) (r_rate (params self)))
       (\<lambda>vol.
     bind (price_binary_option (contract_type (params self)) (spot (params self)) k
             (time_to_expiry self) (r_rate (params self))
             (r_rate (params self) - q_rate (params self)) vol)
       (\<lambda>numeraire_prob.
        let sign = (if contract_type (params self) = CALL then 1 else - 1)
        in Inr ((numeraire_prob * k + sign * calculate_vanilla_component self)
                 / spot (params self)))))"

definition calculate_expiry_miss_probability ::
  "EuropeanDigitalSlope \<Rightarrow> real \<Rightarrow> real \<Rightarrow> real result" where
  "calculate_expiry_miss_probability self low_strike high_strike =
     bind (get_volatility_for_strike self low_strike) (\<lambda>low_vol.
     bind (price_binary_option PUT (spot (params self)) low_strike (time_to_expiry self)
             (discount_rate (params self)) (mu (params self)) low_vol)
       (\<lambda>low_prob.
     bind (get_volatility_for_strike self high_strike) (\<lambda>high_vol.
     bind (price_binary_option CALL (spot (params self)) high_strike (time_to_expiry self)
             (discount_rate (params self)) (mu (params self)) high_vol)
       (\<lambda>high_prob. Inr (low_prob + high_prob)))))"

definition calculate_expiry_range_probability ::
  "EuropeanDigitalSlope \<Rightarrow> real \<Rightarrow> real \<Rightarrow> real result" where
  "calculate_expiry_range_probability self low_strike high_strike =
     (let discount_factor = exp (- discount_rate (params self) * time_to_expiry self) in
      bind (calculate_expiry_miss_probability self low_strike high_strike)
        (\<lambda>expiry_miss_prob. Inr (discount_factor * (1 - expiry_miss_prob))))"

text \<open>
  \<^verbatim>\<open>low_strike, high_strike = sorted(self.params.strikes)\<close> unpacks a list of exactly
  two elements and raises \<^verbatim>\<open>ValueError\<close> otherwise.
\<close>

definition calculate_two_barrier_probability :: "EuropeanDigitalSlope \<Rightarrow> real result" where
  "calculate_two_barrier_probability self =
     (case sort (strikes (params self)) of
        [low_strike, high_strike] \<Rightarrow>
          if contract_type (params self) = EXPIRYMISS
          then calculate_expiry_miss_probability self low_strike high_strike
          else calculate_expiry_range_probability self low_strike high_strike
      | _ \<Rightarrow> Inl (ValueError ''wrong number of values to unpack''))"

definition calculate_base_probability ::
  "EuropeanDigitalSlope \<Rightarrow> (real \<times> EuropeanDigitalSlope) result" where
  "calculate_base_probability self =
     (if length (strikes (params self)) = 2
      then bind (calculate_two_barrier_probability self) (\<lambda>prob. Inr (prob, self))
      else if priced_with (params self) = NUMERAIRE
      then calculate_numeraire_probability self
      else if priced_with (params self) = QUANTO
      then bind (calculate_quanto_probability self) (\<lambda>prob. Inr (prob, self))
      else bind (calculate_base_probability_with_vanilla self) (\<lambda>prob. Inr (prob, self)))"

definition calculate_delta :: "EuropeanDigitalSlope \<Rightarrow> real result" where
  "calculate_delta self =
     bind (py_index (strikes (params self)) 0) (\<lambda>k.
     bind (get_volatility_for_strike self k) (\<lambda>vol.
       Inr (if contract_type (params self) = CALL
            then delta_binary_call (spot (params self)) k (time_to_expiry self)
                   (discount_rate (params self)) (mu (params self)) vol
            else delta_binary_put (spot (params self)) k (time_to_expiry self)
                   (discount_rate (params self)) (mu (params self)) vol)))"

definition calculate_vega :: "EuropeanDigitalSlope \<Rightarrow> real result" where
  "calculate_vega self =
     bind (py_index (strikes (params self)) 0) (\<lambda>k.
     bind (get_volatility_for_strike self k) (\<lambda>vol.
       Inr (if contract_type (params self) = CALL
            then vega_binary_call (spot (params self)) k (time_to_expiry self)
                   (discount_rate (params self)) (mu (params self)) vol
            else vega_binary_put (spot (params self)) k (time_to_expiry self)
                   (discount_rate (params self)) (mu (params self)) vol)))"

text \<open>
  \<^verbatim>\<open>calculate_probability\<close> returns the probability; the engine it leaves behind (with
  the traces written) is the second component.
\<close>

definition calculate_probability ::
  "EuropeanDigitalSlope \<Rightarrow> (real \<times> EuropeanDigitalSlope) result" where
  "calculate_probability self =
     bind (calculate_base_probability self) (\<lambda>(base_prob, self1).
     bind (calculate_delta self1) (\<lambda>delta.
     bind (calculate_vega self1) (\<lambda>vega.
     bind (calculate_total_markup (risk_markup self1) delta vega) (\<lambda>(markup, info).
       let final_prob = base_prob + markup
       in Inr (max 0 (min 1 final_prob),
               self1\<lparr>risk_markup := (risk_markup self1)\<lparr>rm_debug_info := info\<rparr>\<rparr>)))))"

subsection \<open>Well-formed inputs\<close>

text \<open>
  The surface contract of the package: at least one tenor, and every tenor carries a
  non-empty \<^verbatim>\<open>"smile"\<close> table.
\<close>

definition well_formed_surface :: "VolSurface \<Rightarrow> bool" where
  "well_formed_surface surface =
     (surface \<noteq> []
      \<and> list_all (\<lambda>(tenor, entry).
            case map_of entry ''smile'' of None \<Rightarrow> False | Some sm \<Rightarrow> sm \<noteq> []) surface)"

text \<open>
  Hour-end parameters are well typed when \<^verbatim>\<open>"current_spot"\<close>, if present, is a number
  and \<^verbatim>\<open>"high_low"\<close>, if present, is a dictionary.
\<close>

definition hour_end_well_typed :: "(string, hour_end_value) dict option \<Rightarrow> bool" where
  "hour_end_well_typed hp =
     (case hp of
        None \<Rightarrow> True
      | Some d \<Rightarrow>
          (case map_of d ''current_spot'' of Some (HDict _) \<Rightarrow> False | _ \<Rightarrow> True)
          \<and> (case map_of d ''high_low'' of Some (HNum _) \<Rightarrow> False | _ \<Rightarrow> True))"

subsection \<open>Example inputs\<close>

text \<open>
  A surface with two tenors and three smile points each, listed out of order as a
  dictionary may be, and a request on it; the closed instances below are stated on them.
\<close>

definition example_surface :: VolSurface where
  "example_surface =
     [(30, [(''smile'', [(25, 0.1), (50, 0.08), (75, 0.12)])]),
      (7, [(''smile'', [(50, 0.09), (25, 0.11), (75, 0.13)])])]"

definition example_request :: PricingParameters where
  "example_request =
     \<lparr>contract_type = CALL, spot = 1, strikes = [1],
      date_start = 0, date_pricing = 0, date_expiry = 604800000000,
      discount_rate = 0, mu = 0, vol_surface = example_surface, q_rate = 0, r_rate = 0,
      priced_with = NUMERAIRE, underlying_symbol = ''frxEURUSD'', market_type = ''forex'',
      is_atm = False, for_sale = True, markup_parameters = None\<rparr>"

definition flat_surface :: VolSurface where
  "flat_surface = [(7, [(''smile'', [(50, 0.08)])])]"

text \<open>The engine that \<open>init\<close> builds from \<open>example_request\<close>.\<close>

definition example_engine :: EuropeanDigitalSlope where
  "example_engine =
     \<lparr>params = example_request, time_to_expiry = 7 / 365,
      risk_markup = RiskMarkup_init False False (7 / 365) ''forex'' True None,
      debug_info = Map.empty\<rparr>"

text \<open>
  A surface with one tenor of 30 days and a steep smile, a one-day request on it and its
  engine; \<open>sloped_vol_up\<close> is the volatility that the surface gives one pip above the
  strike, an interpolation between the two smile points.
\<close>

definition sloped_surface :: VolSurface where
  "sloped_surface = [(30, [(''smile'', [(50, 0.08), (51, 0.58)])])]"

definition sloped_request :: PricingParameters where
  "sloped_request = example_request\<lparr>date_expiry := 86400000000, vol_surface := sloped_surface\<rparr>"

definition sloped_engine :: EuropeanDigitalSlope where
  "sloped_engine =
     \<lparr>params = sloped_request, time_to_expiry = 1 / 365,
      risk_markup = RiskMarkup_init False False (1 / 365) ''forex'' True None,
      debug_info = Map.empty\<rparr>"

definition sloped_vol_up :: real where
  "sloped_vol_up =
     (let w = ln (10001 / 10000) / (2 * pi) * 100 in 0.08 * (1 - w) + 0.58 * w)"

section \<open>Properties\<close>

subsection \<open>The builtins\<close>

lemma bind_Inl [simp]: "bind (Inl e) f = Inl e"
  by (simp add: bind_def)

lemma bind_Inr [simp]: "bind (Inr x) f = f x"
  by (simp add: bind_def)

lemma foldl_min_eq: "foldl (\<lambda>best y. if y < best then y else best) (x::int) xs = Min (set (x # xs))"
proof (induction xs arbitrary: x)
  case Nil
  then show ?case by simp
next
  case (Cons a xs)
  have "(if a < x then a else x) = min a x" by (simp add: min_def)
  then show ?case using Cons[of "min a x"]
    by (cases "xs = []") (simp_all add: min.assoc min.commute min.left_commute)
qed

lemma foldl_max_eq: "foldl (\<lambda>best y. if y > best then y else best) (x::int) xs = Max (set (x # xs))"
proof (induction xs arbitrary: x)
  case Nil
  then show ?case by simp
next
  case (Cons a xs)
  have "(if a > x then a else x) = max a x" by (simp add: max_def)
  then show ?case using Cons[of "max a x"]
    by (cases "xs = []") (simp_all add: max.assoc max.commute max.left_commute)
qed

lemma py_min_eq: "xs \<noteq> [] \<Longrightarrow> py_min xs = Inr (Min (set xs))"
  by (cases xs) (simp_all add: py_min_def foldl_min_eq)

lemma py_max_eq: "xs \<noteq> [] \<Longrightarrow> py_max xs = Inr (Max (set xs))"
  by (cases xs) (simp_all add: py_max_def foldl_max_eq)

lemma min_key_from_spec:
  "min_key_from key best xs \<in> set (best # xs)
   \<and> (\<forall>x \<in> set (best # xs). key (min_key_from key best xs) \<le> key x)"
proof (induction xs arbitrary: best)
  case Nil
  then show ?case by simp
next
  case (Cons a xs)
  let ?b = "if key a < key best then a else best"
  from Cons[of ?b] show ?case
    by (auto split: if_splits intro: order_trans less_imp_le)
qed

lemma py_min_key_spec:
  assumes "xs \<noteq> []"
  shows "\<exists>t. py_min_key key xs = Inr t \<and> t \<in> set xs \<and> (\<forall>x \<in> set xs. key t \<le> key x)"
proof (cases xs)
  case Nil
  with assms show ?thesis by simp
next
  case (Cons a rest)
  with min_key_from_spec[of key a rest] show ?thesis
    by (simp add: py_min_key_def)
qed

lemma traverse_getitem:
  "set ks \<subseteq> fst ` set d \<Longrightarrow> traverse (getitem d) ks = Inr (map (\<lambda>k. the (map_of d k)) ks)"
proof (induction ks)
  case Nil
  then show ?case by simp
next
  case (Cons k ks)
  then have "k \<in> fst ` set d" by simp
  then obtain v where "map_of d k = Some v"
    by (metis map_of_eq_None_iff not_Some_eq)
  with Cons show ?case by (simp add: getitem_def)
qed


subsection \<open>Looking a volatility up\<close>

lemma sorted_nth0_Min: "sorted (ds::int list) \<Longrightarrow> ds \<noteq> [] \<Longrightarrow> ds ! 0 = Min (set ds)"
  by (cases ds) (auto intro!: Min_eqI[symmetric])

lemma sorted_last_Max: "sorted (ds::int list) \<Longrightarrow> ds \<noteq> [] \<Longrightarrow> ds ! (length ds - 1) = Max (set ds)"
proof -
  assume s: "sorted ds" and ne: "ds \<noteq> []"
  have "Max (set ds) = ds ! (length ds - 1)"
  proof (rule Max_eqI)
    show "finite (set ds)" by simp
    show "ds ! (length ds - 1) \<in> set ds" using ne by simp
    fix y assume "y \<in> set ds"
    then obtain j where j: "j < length ds" "ds ! j = y" by (auto simp: in_set_conv_nth)
    then have "ds ! j \<le> ds ! (length ds - 1)"
      using s by (intro sorted_nth_mono) auto
    with j show "y \<le> ds ! (length ds - 1)" by simp
  qed
  then show ?thesis by simp
qed

lemma crossing_exists:
  fixes ds :: "int list" and x :: real
  assumes ne: "ds \<noteq> []"
    and lo: "real_of_int (ds ! 0) < x"
    and hi: "x < real_of_int (ds ! (length ds - 1))"
  shows "\<exists>i. i < length ds - 1 \<and> real_of_int (ds ! i) \<le> x \<and> x \<le> real_of_int (ds ! (i + 1))"
proof -
  define j where "j = (LEAST j. x \<le> real_of_int (ds ! j))"
  have ex: "x \<le> real_of_int (ds ! (length ds - 1))" using hi by simp
  have pj: "x \<le> real_of_int (ds ! j)" unfolding j_def by (rule LeastI[of _ "length ds - 1"]) (rule ex)
  have jle: "j \<le> length ds - 1" unfolding j_def by (rule Least_le) (rule ex)
  have jpos: "j \<noteq> 0" using pj lo by (cases j) auto
  then obtain i where i: "j = Suc i" by (cases j) auto
  have "\<not> x \<le> real_of_int (ds ! i)"
    using not_less_Least[of i "\<lambda>j. x \<le> real_of_int (ds ! j)"] i by (simp add: j_def)
  with pj i jle show ?thesis by (intro exI[of _ i]) auto
qed

lemma find_crossing:
  fixes ds :: "int list" and x :: real
  assumes ne: "ds \<noteq> []"
    and lo: "real_of_int (ds ! 0) < x"
    and hi: "x < real_of_int (ds ! (length ds - 1))"
  shows "\<exists>i. find (\<lambda>i. real_of_int (ds ! i) \<le> x \<and> x \<le> real_of_int (ds ! (i + 1))) [0 ..< length ds - 1] = Some i
            \<and> i < length ds - 1 \<and> real_of_int (ds ! i) \<le> x \<and> x \<le> real_of_int (ds ! (i + 1))
            \<and> (\<forall>j < i. \<not> (real_of_int (ds ! j) \<le> x \<and> x \<le> real_of_int (ds ! (j + 1))))"
proof -
  let ?P = "\<lambda>i. real_of_int (ds ! i) \<le> x \<and> x \<le> real_of_int (ds ! (i + 1))"
  from crossing_exists[OF ne lo hi] obtain i0 where i0: "i0 < length ds - 1" "?P i0" by blast
  then have "find ?P [0 ..< length ds - 1] \<noteq> None"
    by (auto simp: find_None_iff)
  then obtain i where f: "find ?P [0 ..< length ds - 1] = Some i" by blast
  then obtain k where k: "k < length [0 ..< length ds - 1]" "?P ([0 ..< length ds - 1] ! k)"
      "i = [0 ..< length ds - 1] ! k" "\<forall>j<k. \<not> ?P ([0 ..< length ds - 1] ! j)"
    unfolding find_Some_iff by blast
  then have ki: "i = k" "k < length ds - 1" by simp_all
  have "\<forall>j<i. \<not> ?P j"
  proof (intro allI impI)
    fix j assume "j < i"
    with k ki have "\<not> ?P ([0 ..< length ds - 1] ! j)" "j < length ds - 1" by auto
    then show "\<not> ?P j" by simp
  qed
  with f k ki show ?thesis by auto
qed


lemma py_index_first: "vs \<noteq> [] \<Longrightarrow> py_index vs 0 = Inr (vs ! 0)"
  by (simp add: py_index_def Let_def)

lemma py_index_last: "vs \<noteq> [] \<Longrightarrow> py_index vs (- 1) = Inr (vs ! (length vs - 1))"
proof (cases vs)
  case Nil
  assume "vs \<noteq> []"
  with Nil show ?thesis by simp
next
  case (Cons a rest)
  have "nat (int (length (a # rest)) + - 1) = length (a # rest) - 1" by simp
  moreover have "- int (length (a # rest)) \<le> - 1" by simp
  ultimately have "py_index (a # rest) (- 1) = Inr ((a # rest) ! (length (a # rest) - 1))"
    unfolding py_index_def by (simp del: length_Cons list.size)
  with Cons show ?thesis by simp
qed

lemma get_volatility_reduce:
  assumes t: "py_min_key (\<lambda>x. \<bar>real_of_int x - T * 365\<bar>) (sort (map fst surface)) = Inr tenor"
    and e: "map_of surface tenor = Some entry"
    and m: "map_of entry ''smile'' = Some sm"
    and ne: "sm \<noteq> []"
  shows "get_volatility_from_surface surface S K T q r =
     (let ds = sort (map fst sm);
          vols = map (\<lambda>k. the (map_of sm k)) ds;
          x = 50 + (ln (K / (S * exp ((r - q) * T))) / (2 * pi)) * 100
      in if x \<le> real_of_int (Min (set ds)) then Inr (vols ! 0)
         else if x \<ge> real_of_int (Max (set ds)) then Inr (vols ! (length ds - 1))
         else (case find (\<lambda>i. real_of_int (ds ! i) \<le> x \<and> x \<le> real_of_int (ds ! (i + 1)))
                      [0 ..< length ds - 1] of
                 Some i \<Rightarrow>
                   Inr (vols ! i * (1 - (x - real_of_int (ds ! i))
                                       / (real_of_int (ds ! (i + 1)) - real_of_int (ds ! i)))
                        + vols ! (i + 1) * ((x - real_of_int (ds ! i))
                                       / (real_of_int (ds ! (i + 1)) - real_of_int (ds ! i))))
               | None \<Rightarrow> getitem sm 50))"
proof -
  have ds: "sort (map fst sm) \<noteq> []" using ne by (cases sm) auto
  have tr: "traverse (getitem sm) (sort (map fst sm))
              = Inr (map (\<lambda>k. the (map_of sm k)) (sort (map fst sm)))"
    by (rule traverse_getitem) simp
  have vne: "map (\<lambda>k. the (map_of sm k)) (sort (map fst sm)) \<noteq> []" using ds by simp
  show ?thesis
    unfolding get_volatility_from_surface_def Let_def
    by (simp add: t e m getitem_def tr py_min_eq[OF ds] py_max_eq[OF ds]
        py_index_first[OF vne] py_index_last[OF vne])
qed


lemma nearest_tenor_smile:
  assumes wf: "well_formed_surface surface"
  shows "\<exists>tenor entry sm.
           py_min_key (\<lambda>x. \<bar>real_of_int x - T * 365\<bar>) (sort (map fst surface)) = Inr tenor
         \<and> tenor \<in> fst ` set surface
         \<and> (\<forall>t \<in> fst ` set surface. \<bar>real_of_int tenor - T * 365\<bar> \<le> \<bar>real_of_int t - T * 365\<bar>)
         \<and> map_of surface tenor = Some entry \<and> map_of entry ''smile'' = Some sm \<and> sm \<noteq> []"
proof -
  from wf have ne: "sort (map fst surface) \<noteq> []"
    by (cases surface) (auto simp: well_formed_surface_def)
  from py_min_key_spec[OF ne, of "\<lambda>x. \<bar>real_of_int x - T * 365\<bar>"]
  obtain tenor where t: "py_min_key (\<lambda>x. \<bar>real_of_int x - T * 365\<bar>) (sort (map fst surface)) = Inr tenor"
    "tenor \<in> set (sort (map fst surface))"
    "\<forall>x \<in> set (sort (map fst surface)). \<bar>real_of_int tenor - T * 365\<bar> \<le> \<bar>real_of_int x - T * 365\<bar>"
    by blast
  from t(2) have mem: "tenor \<in> fst ` set surface" by simp
  then obtain entry where e: "map_of surface tenor = Some entry"
    by (metis map_of_eq_None_iff not_Some_eq)
  then have "(tenor, entry) \<in> set surface" by (rule map_of_SomeD)
  with wf have "case map_of entry ''smile'' of None \<Rightarrow> False | Some sm \<Rightarrow> sm \<noteq> []"
    by (auto simp: well_formed_surface_def list_all_iff)
  then obtain sm where "map_of entry ''smile'' = Some sm" "sm \<noteq> []"
    by (auto split: option.splits)
  with t mem e show ?thesis by auto
qed

lemma interpolation_cases:
  fixes sm :: smile and x :: real
  assumes ne: "sm \<noteq> []"
  defines "ds \<equiv> sort (map fst sm)"
  defines "vols \<equiv> map (\<lambda>k. the (map_of sm k)) ds"
  defines "res \<equiv>
      (if x \<le> real_of_int (Min (set ds)) then Inr (vols ! 0)
         else if x \<ge> real_of_int (Max (set ds)) then Inr (vols ! (length ds - 1))
         else (case find (\<lambda>i. real_of_int (ds ! i) \<le> x \<and> x \<le> real_of_int (ds ! (i + 1)))
                      [0 ..< length ds - 1] of
                 Some i \<Rightarrow>
                   Inr (vols ! i * (1 - (x - real_of_int (ds ! i))
                                       / (real_of_int (ds ! (i + 1)) - real_of_int (ds ! i)))
                        + vols ! (i + 1) * ((x - real_of_int (ds ! i))
                                       / (real_of_int (ds ! (i + 1)) - real_of_int (ds ! i))))
               | None \<Rightarrow> getitem sm 50))"
  shows "(x \<le> real_of_int (Min (fst ` set sm))
            \<longrightarrow> res = Inr (the (map_of sm (Min (fst ` set sm)))))
       \<and> (real_of_int (Max (fst ` set sm)) \<le> x
            \<longrightarrow> res = Inr (the (map_of sm (Max (fst ` set sm)))))
       \<and> (real_of_int (Min (fst ` set sm)) < x \<and> x < real_of_int (Max (fst ` set sm))
            \<longrightarrow> (\<exists>a b. a \<in> fst ` set sm \<and> b \<in> fst ` set sm \<and> a < b
                    \<and> (\<forall>k \<in> fst ` set sm. k \<le> a \<or> b \<le> k)
                    \<and> real_of_int a \<le> x \<and> x \<le> real_of_int b
                    \<and> res = Inr (the (map_of sm a) * (1 - (x - real_of_int a) / (real_of_int b - real_of_int a))
                                + the (map_of sm b) * ((x - real_of_int a) / (real_of_int b - real_of_int a)))))"
proof -
  have dne: "ds \<noteq> []" using ne by (cases sm) (auto simp: ds_def)
  have srt: "sorted ds" by (simp add: ds_def)
  have sds: "set ds = fst ` set sm" by (simp add: ds_def)
  have d0: "ds ! 0 = Min (fst ` set sm)" using sorted_nth0_Min[OF srt dne] sds by simp
  have dl: "ds ! (length ds - 1) = Max (fst ` set sm)" using sorted_last_Max[OF srt dne] sds by simp
  have v: "i < length ds \<Longrightarrow> vols ! i = the (map_of sm (ds ! i))" for i
    by (simp add: vols_def)
  have len: "0 < length ds" using dne by simp
  have MinMax: "Min (fst ` set sm) \<le> Max (fst ` set sm)"
    using ne by (intro Min_le_iff[THEN iffD2]) (auto intro!: bexI[of _ "Max (fst ` set sm)"])
  have c1: "x \<le> real_of_int (Min (fst ` set sm)) \<longrightarrow> res = Inr (the (map_of sm (Min (fst ` set sm))))"
    using v[of 0] len d0 by (simp add: res_def sds)
  have c2: "real_of_int (Max (fst ` set sm)) \<le> x \<longrightarrow> res = Inr (the (map_of sm (Max (fst ` set sm))))"
  proof
    assume h: "real_of_int (Max (fst ` set sm)) \<le> x"
    show "res = Inr (the (map_of sm (Max (fst ` set sm))))"
    proof (cases "x \<le> real_of_int (Min (fst ` set sm))")
      case True
      with h MinMax have "Min (fst ` set sm) = Max (fst ` set sm)" by linarith
      with c1 True show ?thesis by simp
    next
      case False
      with h v[of "length ds - 1"] len dl show ?thesis by (simp add: res_def sds)
    qed
  qed
  have c3: "real_of_int (Min (fst ` set sm)) < x \<and> x < real_of_int (Max (fst ` set sm))
            \<longrightarrow> (\<exists>a b. a \<in> fst ` set sm \<and> b \<in> fst ` set sm \<and> a < b
                    \<and> (\<forall>k \<in> fst ` set sm. k \<le> a \<or> b \<le> k)
                    \<and> real_of_int a \<le> x \<and> x \<le> real_of_int b
                    \<and> res = Inr (the (map_of sm a) * (1 - (x - real_of_int a) / (real_of_int b - real_of_int a))
                                + the (map_of sm b) * ((x - real_of_int a) / (real_of_int b - real_of_int a))))"
  proof
    assume h: "real_of_int (Min (fst ` set sm)) < x \<and> x < real_of_int (Max (fst ` set sm))"
    then have lo: "real_of_int (ds ! 0) < x" and hi: "x < real_of_int (ds ! (length ds - 1))"
      using d0 dl by simp_all
    from find_crossing[OF dne lo hi] obtain i where
      f: "find (\<lambda>i. real_of_int (ds ! i) \<le> x \<and> x \<le> real_of_int (ds ! (i + 1))) [0 ..< length ds - 1] = Some i"
      and i: "i < length ds - 1" and a: "real_of_int (ds ! i) \<le> x" and b: "x \<le> real_of_int (ds ! (i + 1))"
      and first: "\<forall>j < i. \<not> (real_of_int (ds ! j) \<le> x \<and> x \<le> real_of_int (ds ! (j + 1)))"
      by blast
    have i1: "i < length ds" "i + 1 < length ds" using i by auto
    have le: "ds ! i \<le> ds ! (i + 1)" using srt i1 by (intro sorted_nth_mono) auto
    have lt: "ds ! i < ds ! (i + 1)"
    proof (rule ccontr)
      assume "\<not> ds ! i < ds ! (i + 1)"
      with le have eq: "ds ! i = ds ! (i + 1)" by simp
      with a b have xe: "x = real_of_int (ds ! i)" by simp
      show False
      proof (cases i)
        case 0
        with xe lo show False by simp
      next
        case (Suc j)
        then have "ds ! j \<le> ds ! i" using srt i1 by (intro sorted_nth_mono) auto
        with xe Suc have "real_of_int (ds ! j) \<le> x \<and> x \<le> real_of_int (ds ! (j + 1))" by simp
        with first Suc show False by auto
      qed
    qed
    have adj: "\<forall>k \<in> fst ` set sm. k \<le> ds ! i \<or> ds ! (i + 1) \<le> k"
    proof
      fix k assume "k \<in> fst ` set sm"
      then have "k \<in> set ds" using sds by simp
      then obtain j where j: "j < length ds" "ds ! j = k" by (auto simp: in_set_conv_nth)
      show "k \<le> ds ! i \<or> ds ! (i + 1) \<le> k"
      proof (cases "j \<le> i")
        case True
        then have "ds ! j \<le> ds ! i" using srt i1 by (intro sorted_nth_mono) auto
        with j show ?thesis by simp
      next
        case False
        then have "ds ! (i + 1) \<le> ds ! j" using srt j by (intro sorted_nth_mono) auto
        with j show ?thesis by simp
      qed
    qed
    have mem: "ds ! i \<in> fst ` set sm" "ds ! (i + 1) \<in> fst ` set sm"
      using i1 sds nth_mem by blast+
    have r: "res = Inr (the (map_of sm (ds ! i)) * (1 - (x - real_of_int (ds ! i)) / (real_of_int (ds ! (i + 1)) - real_of_int (ds ! i)))
                                + the (map_of sm (ds ! (i + 1))) * ((x - real_of_int (ds ! i)) / (real_of_int (ds ! (i + 1)) - real_of_int (ds ! i))))"
      using h f v[OF i1(1)] v[OF i1(2)] by (simp add: res_def sds)
    from mem lt adj a b r show "\<exists>a b. a \<in> fst ` set sm \<and> b \<in> fst ` set sm \<and> a < b
                    \<and> (\<forall>k \<in> fst ` set sm. k \<le> a \<or> b \<le> k)
                    \<and> real_of_int a \<le> x \<and> x \<le> real_of_int b
                    \<and> res = Inr (the (map_of sm a) * (1 - (x - real_of_int a) / (real_of_int b - real_of_int a))
                                + the (map_of sm b) * ((x - real_of_int a) / (real_of_int b - real_of_int a)))"
      by blast
  qed
  from c1 c2 c3 show ?thesis by blast
qed

lemma get_volatility_total:
  assumes wf: "well_formed_surface surface"
  shows "\<exists>vol. get_volatility_from_surface surface S K T q r = Inr vol"
proof -
  from nearest_tenor_smile[OF wf, of T] obtain tenor entry sm where
    t: "py_min_key (\<lambda>x. \<bar>real_of_int x - T * 365\<bar>) (sort (map fst surface)) = Inr tenor"
    and e: "map_of surface tenor = Some entry" and m: "map_of entry ''smile'' = Some sm"
    and ne: "sm \<noteq> []"
    by blast
  define x where "x = 50 + (ln (K / (S * exp ((r - q) * T))) / (2 * pi)) * 100"
  have ne': "fst ` set sm \<noteq> {}" using ne by simp
  consider "x \<le> real_of_int (Min (fst ` set sm))" | "real_of_int (Max (fst ` set sm)) \<le> x"
    | "real_of_int (Min (fst ` set sm)) < x \<and> x < real_of_int (Max (fst ` set sm))"
    by linarith
  then show ?thesis
    using interpolation_cases[OF ne, of x]
    unfolding get_volatility_reduce[OF t e m ne, of S K q r] Let_def x_def[symmetric]
    by cases auto
qed

text \<open>
  C4. For a well-formed surface, spot \<open>S > 0\<close>, strike \<open>K > 0\<close>, time to expiry \<open>T\<close>
  and rates \<open>q\<close>, \<open>r\<close>: \<open>get_volatility_from_surface\<close> reads the smile of a tenor
  nearest to \<open>T * 365\<close>; with the forward \<open>F = S * exp ((r - q) * T)\<close>, the log-moneyness
  \<open>ln (K / F)\<close> and the coordinate \<open>x = 50 + (ln (K / F) / (2 * pi)) * 100\<close>, it returns
  the volatility at the smallest smile key when \<open>x\<close> is at most that key, the volatility
  at the largest key when \<open>x\<close> is at least that key, and otherwise the linear
  interpolation between two keys \<open>a < b\<close> that bracket \<open>x\<close> with no key in between.
  (Positivity of \<open>S\<close> and \<open>K\<close> is where the logarithm of the code is a finite number.)
\<close>

theorem get_volatility_from_surface_spec:
  fixes surface :: VolSurface and S K T q r :: real
  defines "F \<equiv> S * exp ((r - q) * T)"
  defines "x \<equiv> 50 + (ln (K / F) / (2 * pi)) * 100"
  defines "res \<equiv> get_volatility_from_surface surface S K T q r"
  assumes wf: "well_formed_surface surface" and "0 < S" and "0 < K"
  shows "\<exists>tenor entry sm.
           tenor \<in> fst ` set surface
         \<and> (\<forall>t \<in> fst ` set surface. \<bar>real_of_int tenor - T * 365\<bar> \<le> \<bar>real_of_int t - T * 365\<bar>)
         \<and> map_of surface tenor = Some entry \<and> map_of entry ''smile'' = Some sm \<and> sm \<noteq> []
         \<and> (x \<le> real_of_int (Min (fst ` set sm))
              \<longrightarrow> res = Inr (the (map_of sm (Min (fst ` set sm)))))
         \<and> (real_of_int (Max (fst ` set sm)) \<le> x
              \<longrightarrow> res = Inr (the (map_of sm (Max (fst ` set sm)))))
         \<and> (real_of_int (Min (fst ` set sm)) < x \<and> x < real_of_int (Max (fst ` set sm))
              \<longrightarrow> (\<exists>a b. a \<in> fst ` set sm \<and> b \<in> fst ` set sm \<and> a < b
                      \<and> (\<forall>k \<in> fst ` set sm. k \<le> a \<or> b \<le> k)
                      \<and> real_of_int a \<le> x \<and> x \<le> real_of_int b
                      \<and> res = Inr (the (map_of sm a) * (1 - (x - real_of_int a) / (real_of_int b - real_of_int a))
                                  + the (map_of sm b) * ((x - real_of_int a) / (real_of_int b - real_of_int a)))))"
proof -
  from nearest_tenor_smile[OF wf, of T] obtain tenor entry sm where
    t: "py_min_key (\<lambda>x. \<bar>real_of_int x - T * 365\<bar>) (sort (map fst surface)) = Inr tenor"
    and mem: "tenor \<in> fst ` set surface"
    and near: "\<forall>t \<in> fst ` set surface. \<bar>real_of_int tenor - T * 365\<bar> \<le> \<bar>real_of_int t - T * 365\<bar>"
    and e: "map_of surface tenor = Some entry" and m: "map_of entry ''smile'' = Some sm"
    and ne: "sm \<noteq> []"
    by blast
  have r: "res = (let ds = sort (map fst sm);
          vols = map (\<lambda>k. the (map_of sm k)) ds
      in if x \<le> real_of_int (Min (set ds)) then Inr (vols ! 0)
         else if x \<ge> real_of_int (Max (set ds)) then Inr (vols ! (length ds - 1))
         else (case find (\<lambda>i. real_of_int (ds ! i) \<le> x \<and> x \<le> real_of_int (ds ! (i + 1)))
                      [0 ..< length ds - 1] of
                 Some i \<Rightarrow>
                   Inr (vols ! i * (1 - (x - real_of_int (ds ! i))
                                       / (real_of_int (ds ! (i + 1)) - real_of_int (ds ! i)))
                        + vols ! (i + 1) * ((x - real_of_int (ds ! i))
                                       / (real_of_int (ds ! (i + 1)) - real_of_int (ds ! i))))
               | None \<Rightarrow> getitem sm 50))"
    unfolding res_def x_def F_def get_volatility_reduce[OF t e m ne, of S K q r] Let_def ..
  show ?thesis
    apply (rule exI[of _ tenor], rule exI[of _ entry], rule exI[of _ sm])
    using mem near e m ne interpolation_cases[OF ne, of x] unfolding r Let_def
    by simp
qed

theorem get_volatility_from_surface_spec_witness:
  "well_formed_surface example_surface \<and> (0::real) < 1
   \<and> get_volatility_from_surface example_surface 1 1 (7 / 365) 0 0 = Inr (9 / 100)"
  using get_volatility_from_surface_spec
          [where surface = example_surface and S = 1 and K = 1 and T = "7 / 365" and q = 0 and r = 0]
  by (simp add: example_surface_def well_formed_surface_def get_volatility_from_surface_def
      py_min_key_def getitem_def py_min_def py_max_def py_index_def Let_def)

subsection \<open>The normal distribution function\<close>

lemma cdf_term_summable: "summable (cdf_term x)"
proof -
  have s: "summable (\<lambda>n. \<bar>x\<bar> * (inverse (fact n) * (x ^ 2 / 2) ^ n))"
    by (rule summable_mult) (rule summable_exp)
  have le: "norm (cdf_term x n) \<le> \<bar>x\<bar> * (inverse (fact n) * (x ^ 2 / 2) ^ n)" for n
  proof -
    have a: "\<bar>cdf_term x n\<bar> = \<bar>x\<bar> * (inverse (fact n) * (x ^ 2 / 2) ^ n) / real (2 * n + 1)"
      by (simp add: cdf_term_def abs_mult power_abs power_mult power_divide divide_simps)
    have b: "0 \<le> \<bar>x\<bar> * (inverse (fact n) * (x ^ 2 / 2) ^ n)"
      by simp
    have "\<bar>x\<bar> * (inverse (fact n) * (x ^ 2 / 2) ^ n) / real (2 * n + 1)
            \<le> \<bar>x\<bar> * (inverse (fact n) * (x ^ 2 / 2) ^ n) / 1"
      by (rule divide_left_mono[OF _ b]) simp_all
    with a show ?thesis by simp
  qed
  show ?thesis
    by (rule summable_comparison_test'[OF s, of 0]) (rule le)
qed

lemma cdf_term_minus: "cdf_term (- x) n = - cdf_term x n"
  by (simp add: cdf_term_def)

lemma norm_cdf_minus: "norm_cdf (- x) = 1 - norm_cdf x"
proof -
  have "(\<Sum>n. cdf_term (- x) n) = (\<Sum>n. - cdf_term x n)"
    by (simp add: cdf_term_minus)
  also have "\<dots> = - (\<Sum>n. cdf_term x n)"
    by (rule suminf_minus) (rule cdf_term_summable)
  finally show ?thesis
    by (simp add: norm_cdf_def)
qed

lemma norm_cdf_zero: "norm_cdf 0 = 1 / 2"
  by (simp add: norm_cdf_def cdf_term_def)

subsection \<open>Put-call symmetry of the binary prices\<close>

text \<open>
  C7. For every spot \<open>> 0\<close>, strike \<open>> 0\<close>, time \<open>T > 0\<close>, volatility \<open>> 0\<close> and any
  rates, \<open>binary_call + binary_put\<close> at identical arguments equals \<open>exp (- r * T)\<close>.
\<close>

theorem binary_call_put_symmetry:
  assumes "0 < S" and "0 < K" and "0 < T" and "0 < v"
  shows "binary_call S K T r q v + binary_put S K T r q v
           = exp (- r * T)"
  using assms by (simp add: binary_call_def binary_put_def Let_def norm_cdf_minus algebra_simps)

theorem binary_call_put_symmetry_witness:
  "(0::real) < 1 \<and> (0::real) < 2 \<and> (0::real) < 1 / 4 \<and> (0::real) < 1 / 5
   \<and> binary_call 1 2 (1 / 4) (1 / 50) (3 / 100) (1 / 5)
       + binary_put 1 2 (1 / 4) (1 / 50) (3 / 100) (1 / 5) = exp (- (1 / 50) * (1 / 4))"
  using binary_call_put_symmetry [of 1 2 "1 / 4" "1 / 5" "1 / 50" "3 / 100"] by simp

subsection \<open>Degenerate limits\<close>

text \<open>
  C8. Whenever \<open>vol \<le> 0\<close> or \<open>time \<le> 0\<close>: \<open>binary_call\<close> is 1 if spot \<open>>\<close> strike and
  0 otherwise, \<open>binary_put\<close> is 1 if spot \<open><\<close> strike and 0 otherwise, \<open>vanilla_call\<close>
  is \<open>max 0 (S - K)\<close>, \<open>vanilla_put\<close> is \<open>max 0 (K - S)\<close>, and the six
  sensitivities \<open>delta_binary_call\<close>, \<open>delta_binary_put\<close>, \<open>vega_binary_call\<close>,
  \<open>vega_binary_put\<close>, \<open>vega_vanilla_call\<close> and \<open>vega_vanilla_put\<close> are 0.
\<close>

theorem degenerate_limits:
  assumes "v \<le> 0 \<or> T \<le> 0"
  shows "binary_call S K T r q v = (if S > K then 1 else 0)
       \<and> binary_put S K T r q v = (if S < K then 1 else 0)
       \<and> vanilla_call S K T r q v = max 0 (S - K)
       \<and> vanilla_put S K T r q v = max 0 (K - S)
       \<and> delta_binary_call S K T r q v = 0
       \<and> delta_binary_put S K T r q v = 0
       \<and> vega_binary_call S K T r q v = 0
       \<and> vega_binary_put S K T r q v = 0
       \<and> vega_vanilla_call S K T r q v = 0
       \<and> vega_vanilla_put S K T r q v = 0"
  using assms
  by (simp add: binary_call_def binary_put_def vanilla_call_def vanilla_put_def
      delta_binary_call_def delta_binary_put_def vega_binary_call_def vega_binary_put_def
      vega_vanilla_call_def vega_vanilla_put_def)

theorem degenerate_limits_witness:
  "((0::real) \<le> 0 \<or> (1::real) \<le> 0)
   \<and> binary_call 3 2 1 (1 / 50) (3 / 100) 0 = 1
   \<and> binary_put 3 2 1 (1 / 50) (3 / 100) 0 = 0
   \<and> vanilla_call 3 2 1 (1 / 50) (3 / 100) 0 = 1
   \<and> vanilla_put 3 2 1 (1 / 50) (3 / 100) 0 = 0
   \<and> delta_binary_call 3 2 1 (1 / 50) (3 / 100) 0 = 0
   \<and> delta_binary_put 3 2 1 (1 / 50) (3 / 100) 0 = 0
   \<and> vega_binary_call 3 2 1 (1 / 50) (3 / 100) 0 = 0
   \<and> vega_binary_put 3 2 1 (1 / 50) (3 / 100) 0 = 0
   \<and> vega_vanilla_call 3 2 1 (1 / 50) (3 / 100) 0 = 0
   \<and> vega_vanilla_put 3 2 1 (1 / 50) (3 / 100) 0 = 0"
  using degenerate_limits [of 0 1 3 2 "1 / 50" "3 / 100"] by simp

subsection \<open>The risk markup\<close>

lemma endswith_iff: "endswith s suf \<longleftrightarrow> (\<exists>pre. s = pre @ suf)"
proof
  assume "endswith s suf"
  then have "s = take (length s - length suf) s @ suf"
    by (metis append_take_drop_id endswith_def)
  then show "\<exists>pre. s = pre @ suf" ..
next
  assume "\<exists>pre. s = pre @ suf"
  then show "endswith s suf" by (auto simp: endswith_def)
qed


lemma endswith_append: "endswith s (a @ b) \<Longrightarrow> endswith s b"
proof -
  assume "endswith s (a @ b)"
  then obtain pre where "s = pre @ (a @ b)" unfolding endswith_iff by blast
  then have "s = (pre @ a) @ b" by (simp only: append_assoc)
  then show ?thesis unfolding endswith_iff by (rule exI)
qed

lemma traded_market_iff:
  "apply_traded_market_markup self \<longleftrightarrow>
     rm_market_type self \<in> {''forex'', ''commodities'', ''indices''}
     \<or> endswith (rm_market_type self) ''_basket''"
proof -
  have a: "endswith s ''forex_basket'' \<Longrightarrow> endswith s ''_basket''" for s
    using endswith_append[of s "''forex''" "''_basket''"] by (simp only: append.simps)
  have b: "endswith s ''commodity_basket'' \<Longrightarrow> endswith s ''_basket''" for s
    using endswith_append[of s "''commodity''" "''_basket''"] by (simp only: append.simps)
  have "list_ex (endswith s) [''_basket'', ''forex_basket'', ''commodity_basket'']
          \<longleftrightarrow> endswith s ''_basket''" for s
    using a[of s] b[of s] by (simp only: list_ex_Nil_iff list_ex_Cons_iff) blast
  moreover have "set [''forex'', ''commodities'', ''indices''] = {''forex'', ''commodities'', ''indices''}"
    by (simp only: list.set)
  ultimately show ?thesis
    unfolding apply_traded_market_markup_def by (simp only:)
qed


lemma hour_end_markup_of_well_typed:
  "hour_end_well_typed (Some d) \<Longrightarrow> hour_end_markup_of d = Inr 0"
  by (auto simp: hour_end_well_typed_def hour_end_markup_of_def high_low_get_def compare_num_def
      HourEndMarkup_calculate_markup_def Let_def split: option.splits hour_end_value.splits)

text \<open>
  C9. Two calls of \<open>calculate_total_markup\<close> whose contexts differ only in the
  forward-starting flag return the same result (the same markup, and the same diagnostic
  dictionary): the equal-tie rule is always active, so the condition that skips the
  vol-spread, spot-spread and smile-uncertainty rules for forward-starting contracts never
  holds.
\<close>

theorem forward_starting_flag_irrelevant:
  "calculate_total_markup (self\<lparr>rm_is_forward_starting := a\<rparr>) delta vega
     = calculate_total_markup (self\<lparr>rm_is_forward_starting := b\<rparr>) delta vega
   \<and> \<not> (a \<and> \<not> apply_equal_tie_markup (self\<lparr>rm_is_forward_starting := a\<rparr>))"
  by (simp add: calculate_total_markup_def traded_market_block_def apply_equal_tie_markup_def
      apply_traded_market_markup_def apply_smile_uncertainty_markup_def Let_def cong: if_cong)

theorem forward_starting_flag_irrelevant_witness:
  "calculate_total_markup (RiskMarkup_init False True (7 / 365) ''forex'' True None) 1 1
     = calculate_total_markup (RiskMarkup_init False False (7 / 365) ''forex'' True None) 1 1"
  using forward_starting_flag_irrelevant
          [where self = "RiskMarkup_init False True (7 / 365) ''forex'' True None"
             and a = True and b = False and delta = 1 and vega = 1]
  by (simp add: RiskMarkup_init_def)

subsection \<open>Validation at construction\<close>

text \<open>
  C6. Constructing the engine raises if and only if the contract type is not one of
  \<open>CALL\<close>, \<open>PUT\<close>, \<open>EXPIRYMISS\<close>, \<open>EXPIRYRANGE\<close>, or the pricing currency is not one
  of \<open>BASE\<close>, \<open>NUMERAIRE\<close>, \<open>QUANTO\<close>, or the number of strikes is neither 1 nor 2, or
  the expiry is not after the start. The error is the \<open>ValueError\<close> of the validation,
  passed on unchanged; an engine is built only after validation has succeeded, and
  nothing else is computed before it.
\<close>

theorem init_raises_iff:
  "((\<exists>e. init p = Inl e) \<longleftrightarrow>
       contract_type p \<notin> {CALL, PUT, EXPIRYMISS, EXPIRYRANGE}
     \<or> priced_with p \<notin> {BASE, NUMERAIRE, QUANTO}
     \<or> length (strikes p) \<notin> {1, 2}
     \<or> date_expiry p \<le> date_start p)
   \<and> (\<forall>e. init p = Inl e \<longrightarrow> validate_parameters p = Inl e \<and> (\<exists>msg. e = ValueError msg))
   \<and> (\<forall>eng. init p = Inr eng \<longrightarrow> validate_parameters p = Inr () \<and> params eng = p)"
  by (auto simp: init_def validate_parameters_def ContractType_members_def
      PricingCurrency_members_def Let_def split: if_splits)

theorem init_raises_iff_witness:
  "contract_type (example_request\<lparr>contract_type := NotContractType ''DIGITAL''\<rparr>)
      \<notin> {CALL, PUT, EXPIRYMISS, EXPIRYRANGE}
   \<and> init (example_request\<lparr>contract_type := NotContractType ''DIGITAL''\<rparr>)
       = Inl (ValueError ''Unsupported contract type: DIGITAL'')"
proof -
  let ?p = "example_request\<lparr>contract_type := NotContractType ''DIGITAL''\<rparr>"
  have v: "validate_parameters ?p = Inl (ValueError ''Unsupported contract type: DIGITAL'')"
    by (simp add: validate_parameters_def ContractType_members_def example_request_def)
  have n: "contract_type ?p \<notin> {CALL, PUT, EXPIRYMISS, EXPIRYRANGE}"
    by (simp add: example_request_def)
  from init_raises_iff [of ?p] n obtain e where e: "init ?p = Inl e" by blast
  with init_raises_iff [of ?p] have "validate_parameters ?p = Inl e" by blast
  with v e have "init ?p = Inl (ValueError ''Unsupported contract type: DIGITAL'')" by simp
  with n show ?thesis by (rule conjI)
qed

lemma add_markup_fst: "fst (add_markup name amount st) = fst st + amount"
  by (simp add: add_markup_def)

lemma add_markup_snd: "snd (add_markup name amount st) = (snd st)(name \<mapsto> amount)"
  by (simp add: add_markup_def)

lemma traded_market_block_Inr:
  assumes "hour_end_well_typed (hour_end_markup_parameters (rm_params self))"
  shows "\<exists>st. traded_market_block self delta vega (0, d0) = Inr st
     \<and> fst st =
          (if \<not> rm_is_atm self then min (vol_spread (rm_params self) * \<bar>vega\<bar>) 0.7 else 0)
          + (if \<not> rm_time_to_expiry self \<le> 1 / 365
             then max 0 (min (spot_spread_size (rm_params self) * pip_size (rm_params self) * \<bar>delta\<bar>) 0.01)
             else 0)
          + (if rm_market_type self = ''indices'' \<and> rm_time_to_expiry self < 7 / 365 \<and> \<not> rm_is_atm self
             then smile_uncertainty_amount (rm_params self) else 0)
          + 0.01
     \<and> snd st ''equal_tie_markup'' = Some 0.01
     \<and> snd st ''model_arbitrage_markup'' = d0 ''model_arbitrage_markup''"
proof -
  have h: "(case hour_end_markup_parameters (rm_params self) of
             None \<Rightarrow> Inr (0, d0)
           | Some hour_end_params \<Rightarrow>
               if hour_end_params = [] then Inr (0, d0)
               else bind (hour_end_markup_of hour_end_params) (\<lambda>hour_end_markup.
                      Inr (add_markup ''hour_end_markup'' hour_end_markup (0, d0))))
        = Inr (0, if (case hour_end_markup_parameters (rm_params self) of None \<Rightarrow> True | Some d \<Rightarrow> d = [])
                  then d0 else d0(''hour_end_markup'' \<mapsto> 0))"
    using assms hour_end_markup_of_well_typed
    by (auto simp: add_markup_def split: option.splits)
  show ?thesis
    unfolding traded_market_block_def h
    by (simp add: apply_equal_tie_markup_def is_intraday_def add_markup_fst add_markup_snd
        apply_smile_uncertainty_markup_def EqualTieMarkup_calculate_markup_def Let_def)
qed


text \<open>
  C5. With well-typed hour-end parameters, \<open>calculate_total_markup\<close> returns half the
  sum of the active contributions. The traded-market contributions (hour-end, vol-spread,
  spot-spread, smile-uncertainty, equal-tie) enter only when the market class is
  \<open>forex\<close>, \<open>commodities\<close>, \<open>indices\<close> or ends with \<open>_basket\<close>; for any other
  class none of them is added and none of their diagnostic entries is written. The
  model-arbitrage contribution 0.05 is added, whatever the market class, exactly when
  the contract is not for sale and its time to expiry is at most 18060 seconds.
\<close>

theorem calculate_total_markup_spec:
  fixes self :: RiskMarkup and delta vega :: real
  defines "traded \<equiv> rm_market_type self \<in> {''forex'', ''commodities'', ''indices''}
                      \<or> endswith (rm_market_type self) ''_basket''"
  defines "arbitrage \<equiv> \<not> rm_for_sale self \<and> rm_time_to_expiry self * 365 * 86400 \<le> 18060"
  defines "hour_end \<equiv> (0::real)"
  defines "vol_spread_c \<equiv>
            (if \<not> rm_is_atm self then min (vol_spread (rm_params self) * \<bar>vega\<bar>) 0.7 else 0)"
  defines "spot_spread_c \<equiv>
            (if \<not> rm_time_to_expiry self \<le> 1 / 365
             then max 0 (min (spot_spread_size (rm_params self) * pip_size (rm_params self) * \<bar>delta\<bar>) 0.01)
             else 0)"
  defines "smile_c \<equiv>
            (if rm_market_type self = ''indices'' \<and> rm_time_to_expiry self < 7 / 365 \<and> \<not> rm_is_atm self
             then smile_uncertainty_amount (rm_params self) else 0)"
  defines "equal_tie \<equiv> (0.01::real)"
  assumes wt: "hour_end_well_typed (hour_end_markup_parameters (rm_params self))"
  shows "\<exists>info. calculate_total_markup self delta vega =
            Inr (((if traded then hour_end + vol_spread_c + spot_spread_c + smile_c + equal_tie else 0)
                  + (if arbitrage then 0.05 else 0)) / 2, info)
         \<and> (\<not> traded \<longrightarrow>
               info ''hour_end_markup'' = rm_debug_info self ''hour_end_markup''
             \<and> info ''vol_spread_markup'' = rm_debug_info self ''vol_spread_markup''
             \<and> info ''spot_spread_markup'' = rm_debug_info self ''spot_spread_markup''
             \<and> info ''smile_uncertainty_markup'' = rm_debug_info self ''smile_uncertainty_markup''
             \<and> info ''equal_tie_markup'' = rm_debug_info self ''equal_tie_markup'')
         \<and> (traded \<longrightarrow> info ''equal_tie_markup'' = Some 0.01)
         \<and> (arbitrage \<longrightarrow> info ''model_arbitrage_markup'' = Some 0.05)
         \<and> (\<not> arbitrage \<longrightarrow> info ''model_arbitrage_markup'' = rm_debug_info self ''model_arbitrage_markup'')"
proof -
  have tr: "apply_traded_market_markup self = traded"
    unfolding traded_def by (rule traded_market_iff)
  have ar: "(\<not> rm_for_sale self
              \<and> rm_time_to_expiry self * 365 * 24 * 3600 \<le> POTENTIAL_ARBITRAGE_DURATION) = arbitrage"
    by (simp add: arbitrage_def POTENTIAL_ARBITRAGE_DURATION_def)
  show ?thesis
  proof (cases traded)
    case True
    from traded_market_block_Inr[OF wt, of delta vega "rm_debug_info self"]
    obtain st where st: "traded_market_block self delta vega (0, rm_debug_info self) = Inr st"
      and v: "fst st = vol_spread_c + spot_spread_c + smile_c + 0.01"
      and e: "snd st ''equal_tie_markup'' = Some 0.01"
      and m: "snd st ''model_arbitrage_markup'' = rm_debug_info self ''model_arbitrage_markup''"
      unfolding vol_spread_c_def spot_spread_c_def smile_c_def by blast
    show ?thesis
      unfolding calculate_total_markup_def tr ar
      using True st v e m
      by (simp add: Let_def add_markup_fst add_markup_snd ModelArbitrageMarkup_calculate_markup_def
          hour_end_def equal_tie_def)
  next
    case False
    show ?thesis
      unfolding calculate_total_markup_def tr ar
      using False
      by (simp add: Let_def add_markup_fst add_markup_snd ModelArbitrageMarkup_calculate_markup_def)
  qed
qed

theorem calculate_total_markup_spec_witness:
  "hour_end_well_typed (hour_end_markup_parameters
      (rm_params (RiskMarkup_init False False (1 / 8760) ''crypto'' False None)))
   \<and> (\<exists>info. calculate_total_markup
                 (RiskMarkup_init False False (1 / 8760) ''crypto'' False None) 1 1
               = Inr (1 / 40, info))"
  using calculate_total_markup_spec
          [where self = "RiskMarkup_init False False (1 / 8760) ''crypto'' False None"
             and delta = 1 and vega = 1]
  by (simp add: RiskMarkup_init_def MarkupParameters_default_def hour_end_well_typed_def
      lower_def lower_char_def endswith_def) blast

subsection \<open>The base probability\<close>

lemma sort_two: "sort [a, b :: real] = [min a b, max a b]"
  by (auto simp: min_def max_def)

lemma price_binary_option_PUT [simp]:
  "price_binary_option PUT S K T r q v = Inr (binary_put S K T r q v)"
  by (simp add: price_binary_option_def)

lemma price_binary_option_CALL [simp]:
  "price_binary_option CALL S K T r q v = Inr (binary_call S K T r q v)"
  by (simp add: price_binary_option_def)

lemma init_example: "init example_request = Inr example_engine"
  by (simp add: init_def validate_parameters_def ContractType_members_def
      PricingCurrency_members_def example_request_def example_engine_def
      calculate_time_to_expiry_def total_seconds_def is_forward_starting_def Let_def)

lemma flat_lookup_1: "get_volatility_from_surface flat_surface 1 1 (7 / 365) 0 0 = Inr (2 / 25)"
  by (simp add: flat_surface_def get_volatility_from_surface_def py_min_key_def getitem_def
      py_min_def py_max_def py_index_def Let_def)

lemma flat_lookup_2: "get_volatility_from_surface flat_surface 1 2 (7 / 365) 0 0 = Inr (2 / 25)"
  by (simp add: flat_surface_def get_volatility_from_surface_def py_min_key_def getitem_def
      py_min_def py_max_def py_index_def Let_def)

text \<open>
  C2. For a request with positive spot and exactly two positive strikes, \<open>L\<close> and
  \<open>H\<close> the smaller and the larger one, and the surface giving a volatility at each of
  them: the base probability for
  \<open>EXPIRYMISS\<close> is \<open>binary_put\<close> at \<open>L\<close> with the volatility at \<open>L\<close> plus
  \<open>binary_call\<close> at \<open>H\<close> with the volatility at \<open>H\<close>, both with the discount rate and
  \<open>mu\<close> of the request; for \<open>EXPIRYRANGE\<close> it is \<open>exp (- discount_rate * T)\<close> times one
  minus that sum.
\<close>

theorem two_barrier_base_probability:
  fixes self :: EuropeanDigitalSlope and a b :: real
  defines "L \<equiv> min a b" and "H \<equiv> max a b"
  defines "S \<equiv> spot (params self)" and "T \<equiv> time_to_expiry self"
  defines "miss \<equiv> \<lambda>volL volH.
             binary_put S L T (discount_rate (params self)) (mu (params self)) volL
           + binary_call S H T (discount_rate (params self)) (mu (params self)) volH"
  assumes two: "strikes (params self) = [a, b]"
    and spot_pos: "0 < S" and low_pos: "0 < a" and high_pos: "0 < b"
    and vl: "get_volatility_from_surface (vol_surface (params self)) S L T
               (q_rate (params self)) (r_rate (params self)) = Inr volL"
    and vh: "get_volatility_from_surface (vol_surface (params self)) S H T
               (q_rate (params self)) (r_rate (params self)) = Inr volH"
  shows "(contract_type (params self) = EXPIRYMISS
            \<longrightarrow> calculate_base_probability self = Inr (miss volL volH, self))
       \<and> (contract_type (params self) = EXPIRYRANGE
            \<longrightarrow> calculate_base_probability self
                  = Inr (exp (- discount_rate (params self) * T) * (1 - miss volL volH), self))"
proof -
  have m: "calculate_expiry_miss_probability self L H = Inr (miss volL volH)"
    using vl vh
    by (simp add: calculate_expiry_miss_probability_def get_volatility_for_strike_def
        miss_def S_def T_def)
  have s: "sort (strikes (params self)) = [L, H]"
    by (simp only: two sort_two L_def H_def)
  have len: "length (strikes (params self)) = 2"
    by (simp add: two)
  show ?thesis
    unfolding calculate_base_probability_def calculate_two_barrier_probability_def s
    using m len
    by (simp add: calculate_expiry_range_probability_def Let_def T_def)
qed

theorem two_barrier_base_probability_witness:
  "strikes (params (example_engine\<lparr>params := example_request
              \<lparr>contract_type := EXPIRYMISS, strikes := [2, 1], vol_surface := flat_surface\<rparr>\<rparr>)) = [2, 1]
   \<and> 0 < spot (params (example_engine\<lparr>params := example_request
              \<lparr>contract_type := EXPIRYMISS, strikes := [2, 1], vol_surface := flat_surface\<rparr>\<rparr>))
   \<and> (0::real) < 2 \<and> (0::real) < 1
   \<and> get_volatility_from_surface flat_surface 1 (min 2 1) (7 / 365) 0 0 = Inr (2 / 25)
   \<and> get_volatility_from_surface flat_surface 1 (max 2 1) (7 / 365) 0 0 = Inr (2 / 25)
   \<and> fst (projr (calculate_base_probability (example_engine\<lparr>params := example_request
              \<lparr>contract_type := EXPIRYMISS, strikes := [2, 1], vol_surface := flat_surface\<rparr>\<rparr>)))
       = binary_put 1 1 (7 / 365) 0 0 (2 / 25) + binary_call 1 2 (7 / 365) 0 0 (2 / 25)"
  using two_barrier_base_probability
          [where self = "example_engine\<lparr>params := example_request
              \<lparr>contract_type := EXPIRYMISS, strikes := [2, 1], vol_surface := flat_surface\<rparr>\<rparr>"
             and a = 2 and b = 1 and volL = "2 / 25" and volH = "2 / 25"]
        flat_lookup_1 flat_lookup_2
  by (simp add: example_engine_def example_request_def)

subsection \<open>The numeraire path\<close>

lemma lookup_surface_nonempty:
  "get_volatility_from_surface surface S K T q r = Inr v \<Longrightarrow> surface \<noteq> []"
  by (auto simp: get_volatility_from_surface_def py_min_key_def Let_def)

lemma py_index_single: "py_index [k] 0 = Inr k"
  by (simp add: py_index_def Let_def)

lemma price_binary_option_CALL_PUT:
  "ct \<in> {CALL, PUT} \<Longrightarrow>
     price_binary_option ct S K T r q v
       = Inr (if ct = CALL then binary_call S K T r q v else binary_put S K T r q v)"
  by (auto simp: price_binary_option_def)

lemma example_pip: "uc_pip_size (by_symbol ''frxEURUSD'') = 1 / 10000"
  by (simp add: by_symbol_def startswith_def)

lemma init_sloped: "init sloped_request = Inr sloped_engine"
  by (simp add: init_def validate_parameters_def ContractType_members_def
      PricingCurrency_members_def sloped_request_def example_request_def sloped_engine_def
      calculate_time_to_expiry_def total_seconds_def is_forward_starting_def Let_def)

lemma sloped_lookup_at: "get_volatility_from_surface sloped_surface 1 1 (1 / 365) 0 0 = Inr (2 / 25)"
  by (simp add: sloped_surface_def get_volatility_from_surface_def py_min_key_def getitem_def
      py_min_def py_max_def py_index_def Let_def)

lemma pip_coordinate_bounds:
  "0 < ln (10001 / 10000 :: real) / (2 * pi) * 100"
  "ln (10001 / 10000 :: real) / (2 * pi) * 100 < 1"
  "ln (9999 / 10000 :: real) / (2 * pi) * 100 \<le> 0"
proof -
  have p: "0 < ln (10001 / 10000 :: real)" by simp
  then have "0 < ln (10001 / 10000 :: real) / (2 * pi)" by (intro divide_pos_pos) simp_all
  then show "0 < ln (10001 / 10000 :: real) / (2 * pi) * 100" by (intro mult_pos_pos) simp_all
  have "ln (10001 / 10000 :: real) \<le> 10001 / 10000 - 1"
    by (rule ln_le_minus_one) simp
  then have l: "ln (10001 / 10000 :: real) \<le> 1 / 10000" by simp
  have "ln (10001 / 10000 :: real) * 100 < 2 * pi"
    using l pi_ge_two by linarith
  then have "ln (10001 / 10000 :: real) * 100 / (2 * pi) < 1"
    by (simp add: divide_less_eq)
  then show "ln (10001 / 10000 :: real) / (2 * pi) * 100 < 1"
    by (simp only: times_divide_eq_left)
  have n: "ln (9999 / 10000 :: real) \<le> 0" by simp
  then have "ln (9999 / 10000 :: real) / (2 * pi) \<le> 0" by (intro divide_nonpos_pos) simp_all
  then show "ln (9999 / 10000 :: real) / (2 * pi) * 100 \<le> 0"
    by (intro mult_nonpos_nonneg) simp_all
qed

lemma sloped_reduce:
  "get_volatility_from_surface sloped_surface 1 K (1 / 365) 0 0 =
     (let x = 50 + (ln (K / (1 * exp ((0 - 0) * (1 / 365)))) / (2 * pi)) * 100
      in if x \<le> 50 then Inr (2 / 25)
         else if 51 \<le> x then Inr (29 / 50)
         else if 50 \<le> x \<and> x \<le> 51
              then Inr (2 / 25 * (1 - (x - 50) / (51 - 50)) + 29 / 50 * ((x - 50) / (51 - 50)))
              else getitem ([(50, 2 / 25), (51, 29 / 50)] :: smile) 50)"
proof -
  let ?sm = "[(50, 2 / 25), (51, 29 / 50)] :: smile"
  have t: "py_min_key (\<lambda>x. \<bar>real_of_int x - 1 / 365 * 365\<bar>) (sort (map fst sloped_surface)) = Inr 30"
    by (simp add: sloped_surface_def py_min_key_def)
  have e: "map_of sloped_surface 30 = Some [(''smile'', ?sm)]"
    by (simp add: sloped_surface_def)
  have m: "map_of [(''smile'', ?sm)] ''smile'' = Some ?sm" by simp
  have ne: "?sm \<noteq> []" by simp
  show ?thesis
    unfolding get_volatility_reduce[OF t e m ne] Let_def
    by (simp del: ln_div exp_zero mult_1 add: upt_rec)
qed

lemma sloped_lookup_down:
  "get_volatility_from_surface sloped_surface 1 (1 - 1 / 10000) (1 / 365) 0 0 = Inr (2 / 25)"
proof -
  have x: "50 + (ln ((1 - 1 / 10000) / (1 * exp ((0 - 0) * (1 / 365)))) / (2 * pi)) * 100
             = 50 + ln (9999 / 10000 :: real) / (2 * pi) * 100"
    by simp
  have c: "50 + ln (9999 / 10000 :: real) / (2 * pi) * 100 \<le> 50"
    using pip_coordinate_bounds(3) by linarith
  show ?thesis
    by (simp only: sloped_reduce [of "1 - 1 / 10000"] Let_def x c if_True)
qed

lemma sloped_lookup_up:
  "get_volatility_from_surface sloped_surface 1 (1 + 1 / 10000) (1 / 365) 0 0 = Inr sloped_vol_up"
proof -
  define w :: real where "w = ln (10001 / 10000) / (2 * pi) * 100"
  have x: "50 + (ln ((1 + 1 / 10000) / (1 * exp ((0 - 0) * (1 / 365)))) / (2 * pi)) * 100
             = 50 + w"
    by (simp add: w_def)
  have w: "0 < w" "w < 1" using pip_coordinate_bounds unfolding w_def by simp_all
  then have c: "\<not> 50 + w \<le> 50" "\<not> 51 \<le> 50 + w" "50 \<le> 50 + w \<and> 50 + w \<le> 51"
    by linarith+
  have v: "sloped_vol_up = 2 / 25 * (1 - (50 + w - 50) / (51 - 50)) + 29 / 50 * ((50 + w - 50) / (51 - 50))"
    by (simp add: sloped_vol_up_def w_def Let_def)
  show ?thesis
    by (simp only: sloped_reduce [of "1 + 1 / 10000"] Let_def x v c if_True if_False simp_thms)
qed

lemma sloped_vol_up_gt: "2 / 25 < sloped_vol_up"
proof -
  define w :: real where "w = ln (10001 / 10000) / (2 * pi) * 100"
  have "0 < w" using pip_coordinate_bounds(1) unfolding w_def .
  have "0.08 * (1 - w) + 0.58 * w = 2 / 25 + w / 2" by (simp add: field_simps)
  with \<open>0 < w\<close> have "2 / 25 < 0.08 * (1 - w) + 0.58 * w" by linarith
  then show ?thesis unfolding sloped_vol_up_def Let_def w_def .
qed

text \<open>
  C3. For a request with positive spot, one strike \<open>k\<close> above the pip size and
  contract type \<open>CALL\<close> or \<open>PUT\<close>, on a surface that gives volatilities at \<open>k\<close>,
  \<open>k - pip\<close> and \<open>k + pip\<close>, the numeraire
  path returns the binary price plus a slope adjustment. When the request is not forward
  starting the adjustment is \<open>sign * vanilla_vega * slope\<close>, with \<open>sign = - 1\<close> for
  \<open>CALL\<close> and \<open>1\<close> for \<open>PUT\<close>, the vanilla vega taken at the volatility of the
  strike, and \<open>slope = (vol_up - vol_down) / (2 * pip)\<close>; it is clamped into
  \<open>[- 0.03, 0.03]\<close> exactly when the time to expiry is at most \<open>1 / 365\<close> and the
  smallest tenor of the surface exceeds 7. When the request is forward starting the
  adjustment is 0. The pip size is 0.0001 for symbols starting with \<open>frx\<close> and 0.01
  otherwise.
\<close>

theorem numeraire_probability_spec:
  fixes self :: EuropeanDigitalSlope and k vol vol_down vol_up :: real
  defines "S \<equiv> spot (params self)" and "T \<equiv> time_to_expiry self"
  defines "ct \<equiv> contract_type (params self)"
  defines "pip \<equiv> uc_pip_size (by_symbol (underlying_symbol (params self)))"
  defines "lookup \<equiv> \<lambda>K. get_volatility_from_surface (vol_surface (params self)) S K T
                         (q_rate (params self)) (r_rate (params self))"
  defines "bs \<equiv> (if ct = CALL
                  then binary_call S k T (discount_rate (params self)) (mu (params self)) vol
                  else binary_put S k T (discount_rate (params self)) (mu (params self)) vol)"
  defines "vanilla_vega \<equiv> vega_vanilla_call S k T (discount_rate (params self)) (mu (params self)) vol"
  defines "slope \<equiv> (vol_up - vol_down) / (2 * pip)"
  defines "sign \<equiv> (if ct = CALL then - 1 else 1 :: real)"
  defines "capped \<equiv> T \<le> 1 / 365 \<and> 7 < Min (fst ` set (vol_surface (params self)))"
  defines "adjustment \<equiv>
             (if is_forward_starting (date_pricing (params self)) (date_start (params self)) then 0
              else if capped then max (- 0.03) (min 0.03 (sign * vanilla_vega * slope))
              else sign * vanilla_vega * slope)"
  assumes one: "strikes (params self) = [k]"
    and cp: "ct \<in> {CALL, PUT}"
    and spot_pos: "0 < S"
    and strike_pos: "pip < k"
    and v: "lookup k = Inr vol"
    and vd: "lookup (k - pip) = Inr vol_down"
    and vu: "lookup (k + pip) = Inr vol_up"
  shows "(\<exists>self'. calculate_numeraire_probability self = Inr (bs + adjustment, self'))
       \<and> (priced_with (params self) = NUMERAIRE
            \<longrightarrow> (\<exists>self'. calculate_base_probability self = Inr (bs + adjustment, self')))
       \<and> pip = (if startswith (underlying_symbol (params self)) ''frx'' then 0.0001 else 0.01)"
proof -
  have ne: "map fst (vol_surface (params self)) \<noteq> []"
    using v lookup_surface_nonempty unfolding lookup_def by fastforce
  have ft: "get_first_tenor_on_surface self = Inr (Min (fst ` set (vol_surface (params self))))"
    unfolding get_first_tenor_on_surface_def using py_min_eq[OF ne] by simp
  have vv: "(if ct = CALL
              then vega_vanilla_call S k T (discount_rate (params self)) (mu (params self)) vol
              else vega_vanilla_put S k T (discount_rate (params self)) (mu (params self)) vol)
            = vanilla_vega"
    by (simp add: vanilla_vega_def vega_vanilla_put_def)
  have sa: "\<exists>tr. slope_adjustment_of self ct k =
              Inr (if capped then max (- 0.03) (min 0.03 (sign * vanilla_vega * slope))
                   else sign * vanilla_vega * slope, tr)"
    unfolding slope_adjustment_of_def get_atm_volatility_def get_underlying_config_def one
      py_index_single bind_Inr
    using v vd vu ft
    unfolding lookup_def S_def[symmetric] T_def[symmetric] pip_def[symmetric] Let_def vv
    by (simp add: slope_def sign_def capped_def vanilla_vega_def vega_vanilla_put_def)
  have c: "\<exists>tr. calculate self ct = Inr (bs + adjustment, tr)"
  proof -
    from sa obtain tr where tr: "slope_adjustment_of self ct k =
              Inr (if capped then max (- 0.03) (min 0.03 (sign * vanilla_vega * slope))
                   else sign * vanilla_vega * slope, tr)" ..
    show ?thesis
      unfolding calculate_def one py_index_single bind_Inr
      using v price_binary_option_CALL_PUT[OF cp] tr
      unfolding lookup_def S_def[symmetric] T_def[symmetric]
      by (simp add: bs_def adjustment_def Let_def)
  qed
  then have n: "\<exists>self'. calculate_numeraire_probability self = Inr (bs + adjustment, self')"
    unfolding calculate_numeraire_probability_def ct_def[symmetric] by auto
  have l: "length (strikes (params self)) \<noteq> 2" by (simp add: one)
  have b: "priced_with (params self) = NUMERAIRE
            \<longrightarrow> (\<exists>self'. calculate_base_probability self = Inr (bs + adjustment, self'))"
    using n l unfolding calculate_base_probability_def by simp
  have p: "pip = (if startswith (underlying_symbol (params self)) ''frx'' then 0.0001 else 0.01)"
    by (simp add: pip_def by_symbol_def)
  from n b p show ?thesis by blast
qed

theorem numeraire_probability_spec_witness:
  "strikes (params sloped_engine) = [1]
   \<and> contract_type (params sloped_engine) \<in> {CALL, PUT}
   \<and> 0 < spot (params sloped_engine)
   \<and> uc_pip_size (by_symbol (underlying_symbol (params sloped_engine))) < 1
   \<and> get_volatility_from_surface sloped_surface 1 1 (1 / 365) 0 0 = Inr (2 / 25)
   \<and> get_volatility_from_surface sloped_surface 1 (1 - 1 / 10000) (1 / 365) 0 0 = Inr (2 / 25)
   \<and> get_volatility_from_surface sloped_surface 1 (1 + 1 / 10000) (1 / 365) 0 0 = Inr sloped_vol_up
   \<and> 2 / 25 < sloped_vol_up
   \<and> (\<exists>self'. calculate_numeraire_probability sloped_engine
          = Inr (binary_call 1 1 (1 / 365) 0 0 (2 / 25)
                 + max (- 0.03) (min 0.03
                     (- 1 * vega_vanilla_call 1 1 (1 / 365) 0 0 (2 / 25)
                        * ((sloped_vol_up - 2 / 25) / (2 * (1 / 10000))))), self'))"
proof -
  have p: "uc_pip_size (by_symbol (underlying_symbol (params sloped_engine))) = 1 / 10000"
    using example_pip by (simp add: sloped_engine_def sloped_request_def example_request_def)
  have h1: "strikes (params sloped_engine) = [1]"
    and h2: "contract_type (params sloped_engine) \<in> {CALL, PUT}"
    and h3: "0 < spot (params sloped_engine)"
    and c: "contract_type (params sloped_engine) = CALL"
    and s: "spot (params sloped_engine) = 1" "vol_surface (params sloped_engine) = sloped_surface"
       "q_rate (params sloped_engine) = 0" "r_rate (params sloped_engine) = 0"
       "discount_rate (params sloped_engine) = 0" "mu (params sloped_engine) = 0"
       "time_to_expiry sloped_engine = 1 / 365"
    and f: "\<not> is_forward_starting (date_pricing (params sloped_engine)) (date_start (params sloped_engine))"
    by (simp_all add: sloped_engine_def sloped_request_def example_request_def
        is_forward_starting_def total_seconds_def)
  have h4: "uc_pip_size (by_symbol (underlying_symbol (params sloped_engine))) < 1"
    unfolding p by simp
  have cap: "7 < Min (fst ` set sloped_surface)"
    by (simp add: sloped_surface_def)
  have v: "get_volatility_from_surface (vol_surface (params sloped_engine)) (spot (params sloped_engine))
             1 (time_to_expiry sloped_engine) (q_rate (params sloped_engine)) (r_rate (params sloped_engine))
           = Inr (2 / 25)"
    unfolding s by (rule sloped_lookup_at)
  have vd: "get_volatility_from_surface (vol_surface (params sloped_engine)) (spot (params sloped_engine))
             (1 - uc_pip_size (by_symbol (underlying_symbol (params sloped_engine))))
             (time_to_expiry sloped_engine) (q_rate (params sloped_engine)) (r_rate (params sloped_engine))
           = Inr (2 / 25)"
    unfolding s p by (rule sloped_lookup_down)
  have vu: "get_volatility_from_surface (vol_surface (params sloped_engine)) (spot (params sloped_engine))
             (1 + uc_pip_size (by_symbol (underlying_symbol (params sloped_engine))))
             (time_to_expiry sloped_engine) (q_rate (params sloped_engine)) (r_rate (params sloped_engine))
           = Inr sloped_vol_up"
    unfolding s p by (rule sloped_lookup_up)
  from numeraire_probability_spec [OF h1 h2 h3 h4 v vd vu, THEN conjunct1]
  have "\<exists>self'. calculate_numeraire_probability sloped_engine
          = Inr (binary_call 1 1 (1 / 365) 0 0 (2 / 25)
                 + max (- 0.03) (min 0.03
                     (- 1 * vega_vanilla_call 1 1 (1 / 365) 0 0 (2 / 25)
                        * ((sloped_vol_up - 2 / 25) / (2 * (1 / 10000))))), self')"
    unfolding s p c using f cap by simp
  with h1 h2 h3 h4 sloped_lookup_at sloped_lookup_down sloped_lookup_up sloped_vol_up_gt
  show ?thesis by (intro conjI)
qed

subsection \<open>Single-strike requests of a two-barrier type\<close>

lemma init_Inr:
  assumes "init p = Inr eng"
  shows "params eng = p"
    and "time_to_expiry eng = calculate_time_to_expiry (date_start p) (date_expiry p)"
    and "length (strikes p) = 1 \<or> length (strikes p) = 2"
    and "date_start p < date_expiry p"
  using assms
  by (auto simp: init_def validate_parameters_def ContractType_members_def
      PricingCurrency_members_def Let_def bind_def split: if_splits sum.splits)

lemma init_succeeds:
  assumes "contract_type p \<in> {CALL, PUT, EXPIRYMISS, EXPIRYRANGE}"
    and "priced_with p \<in> {BASE, NUMERAIRE, QUANTO}"
    and "length (strikes p) = 1 \<or> length (strikes p) = 2" and "date_start p < date_expiry p"
  shows "\<exists>eng. init p = Inr eng"
proof -
  have "validate_parameters p = Inr ()"
    unfolding validate_parameters_def ContractType_members_def PricingCurrency_members_def
    using assms by auto
  then show ?thesis by (simp add: init_def Let_def)
qed

lemma unsupported_price:
  "ct \<in> {EXPIRYMISS, EXPIRYRANGE} \<Longrightarrow>
     price_binary_option ct S K T r q v
       = Inl (ValueError (''Unsupported contract type: '' @ str_ContractType ct))"
  unfolding price_binary_option_def by auto

lemma unsupported_base_probability:
  assumes one: "strikes (params self) = [k]"
    and ct: "contract_type (params self) \<in> {EXPIRYMISS, EXPIRYRANGE}"
  shows "calculate_base_probability self =
           (case get_volatility_from_surface (vol_surface (params self)) (spot (params self)) k
                   (time_to_expiry self) (q_rate (params self)) (r_rate (params self)) of
              Inl e \<Rightarrow> Inl e
            | Inr vol \<Rightarrow> Inl (ValueError (''Unsupported contract type: ''
                                           @ str_ContractType (contract_type (params self)))))"
proof -
  have l: "length (strikes (params self)) \<noteq> 2" by (simp add: one)
  show ?thesis
    unfolding calculate_base_probability_def calculate_numeraire_probability_def
      calculate_quanto_probability_def calculate_base_probability_with_vanilla_def
      calculate_def one py_index_single unsupported_price[OF ct] Let_def
    using l by (simp add: bind_def split: sum.splits)
qed

lemma example_surface_well_formed: "well_formed_surface example_surface"
  by (simp add: example_surface_def well_formed_surface_def)

text \<open>
  C10. For a request with contract type \<open>EXPIRYMISS\<close> or \<open>EXPIRYRANGE\<close>, exactly one
  strike and an expiry after the start, with any of the three pricing currencies:
  construction succeeds, and \<open>calculate_probability\<close> raises instead of returning a
  probability. On a well-formed surface, with positive spot and strike, the error is the
  \<open>ValueError\<close> "Unsupported contract type" of \<open>price_binary_option\<close>; otherwise the
  volatility lookup may raise first.
\<close>

theorem unsupported_single_strike:
  assumes ct: "contract_type p \<in> {EXPIRYMISS, EXPIRYRANGE}"
    and pc: "priced_with p \<in> {BASE, NUMERAIRE, QUANTO}"
    and one: "length (strikes p) = 1"
    and dates: "date_start p < date_expiry p"
  shows "\<exists>eng. init p = Inr eng
           \<and> (\<exists>e. calculate_probability eng = Inl e)
           \<and> (well_formed_surface (vol_surface p) \<and> 0 < spot p \<and> (\<forall>k \<in> set (strikes p). 0 < k) \<longrightarrow>
                calculate_probability eng
                  = Inl (ValueError (''Unsupported contract type: '' @ str_ContractType (contract_type p))))"
proof -
  from init_succeeds[of p] ct pc one dates obtain eng where eng: "init p = Inr eng" by auto
  then have pe: "params eng = p" by (rule init_Inr)
  from one obtain k where k: "strikes p = [k]"
    by (cases "strikes p") auto
  have b: "calculate_base_probability eng =
           (case get_volatility_from_surface (vol_surface p) (spot p) k
                   (time_to_expiry eng) (q_rate p) (r_rate p) of
              Inl e \<Rightarrow> Inl e
            | Inr vol \<Rightarrow> Inl (ValueError (''Unsupported contract type: ''
                                           @ str_ContractType (contract_type p))))"
    using unsupported_base_probability[of eng k] k ct unfolding pe by simp
  have r1: "\<exists>e. calculate_probability eng = Inl e"
    unfolding calculate_probability_def b by (simp add: bind_def split: sum.splits)
  have r2: "well_formed_surface (vol_surface p) \<and> 0 < spot p \<and> (\<forall>k \<in> set (strikes p). 0 < k) \<longrightarrow>
                calculate_probability eng
                  = Inl (ValueError (''Unsupported contract type: '' @ str_ContractType (contract_type p)))"
  proof
    assume "well_formed_surface (vol_surface p) \<and> 0 < spot p \<and> (\<forall>k \<in> set (strikes p). 0 < k)"
    then have "well_formed_surface (vol_surface p)" ..
    from get_volatility_total[OF this, of "spot p" k "time_to_expiry eng" "q_rate p" "r_rate p"]
    obtain vol where "get_volatility_from_surface (vol_surface p) (spot p) k
                   (time_to_expiry eng) (q_rate p) (r_rate p) = Inr vol" ..
    then show "calculate_probability eng
                  = Inl (ValueError (''Unsupported contract type: '' @ str_ContractType (contract_type p)))"
      unfolding calculate_probability_def b by simp
  qed
  from eng r1 r2 show ?thesis by blast
qed

theorem unsupported_single_strike_witness:
  "contract_type (example_request\<lparr>contract_type := EXPIRYRANGE, priced_with := QUANTO\<rparr>)
      \<in> {EXPIRYMISS, EXPIRYRANGE}
   \<and> length (strikes (example_request\<lparr>contract_type := EXPIRYRANGE, priced_with := QUANTO\<rparr>)) = 1
   \<and> priced_with (example_request\<lparr>contract_type := EXPIRYRANGE, priced_with := QUANTO\<rparr>)
       \<in> {BASE, NUMERAIRE, QUANTO}
   \<and> date_start (example_request\<lparr>contract_type := EXPIRYRANGE, priced_with := QUANTO\<rparr>)
       < date_expiry (example_request\<lparr>contract_type := EXPIRYRANGE, priced_with := QUANTO\<rparr>)
   \<and> well_formed_surface (vol_surface (example_request\<lparr>contract_type := EXPIRYRANGE, priced_with := QUANTO\<rparr>))
   \<and> 0 < spot (example_request\<lparr>contract_type := EXPIRYRANGE, priced_with := QUANTO\<rparr>)
   \<and> strikes (example_request\<lparr>contract_type := EXPIRYRANGE, priced_with := QUANTO\<rparr>) = [1]
   \<and> (\<exists>eng. init (example_request\<lparr>contract_type := EXPIRYRANGE, priced_with := QUANTO\<rparr>) = Inr eng
          \<and> calculate_probability eng
                = Inl (ValueError ''Unsupported contract type: ContractType.EXPIRYRANGE''))"
  using unsupported_single_strike
          [of "example_request\<lparr>contract_type := EXPIRYRANGE, priced_with := QUANTO\<rparr>"]
        example_surface_well_formed
  by (simp add: example_request_def) blast

subsection \<open>The final probability\<close>

lemma calculate_total_markup_total:
  assumes wt: "hour_end_well_typed (hour_end_markup_parameters (rm_params self))"
  shows "\<exists>markup info. calculate_total_markup self delta vega = Inr (markup, info)"
proof (cases "apply_traded_market_markup self")
  case True
  from traded_market_block_Inr[OF wt, of delta vega "rm_debug_info self"]
  obtain st where "traded_market_block self delta vega (0, rm_debug_info self) = Inr st" by blast
  with True show ?thesis
    by (simp only: calculate_total_markup_def Let_def if_True bind_Inr) blast
next
  case False
  then show ?thesis
    by (simp only: calculate_total_markup_def Let_def if_False bind_Inr) blast
qed

lemma slope_adjustment_total:
  assumes one: "strikes (params self) = [k]"
    and wf: "well_formed_surface (vol_surface (params self))"
  shows "\<exists>a tr. slope_adjustment_of self ct k = Inr (a, tr)"
proof -
  let ?look = "\<lambda>K. get_volatility_from_surface (vol_surface (params self)) (spot (params self)) K
                 (time_to_expiry self) (q_rate (params self)) (r_rate (params self))"
  let ?pip = "uc_pip_size (by_symbol (underlying_symbol (params self)))"
  from get_volatility_total[OF wf] obtain atm where atm: "?look k = Inr atm" by blast
  from get_volatility_total[OF wf] obtain vd where vd: "?look (k - ?pip) = Inr vd" by blast
  from get_volatility_total[OF wf] obtain vu where vu: "?look (k + ?pip) = Inr vu" by blast
  have ne: "map fst (vol_surface (params self)) \<noteq> []"
    using wf by (simp add: well_formed_surface_def)
  have ft: "get_first_tenor_on_surface self = Inr (Min (fst ` set (vol_surface (params self))))"
    unfolding get_first_tenor_on_surface_def using py_min_eq[OF ne] by simp
  show ?thesis
    unfolding slope_adjustment_of_def get_atm_volatility_def get_underlying_config_def one
      py_index_single bind_Inr atm vd vu ft Let_def
    by (cases "time_to_expiry self \<le> 1 / 365") simp_all
qed

lemma calculate_total:
  assumes one: "strikes (params self) = [k]"
    and ct: "ct \<in> {CALL, PUT}"
    and wf: "well_formed_surface (vol_surface (params self))"
  shows "\<exists>prob tr. calculate self ct = Inr (prob, tr)"
proof -
  from get_volatility_total[OF wf] obtain vol where
    vol: "get_volatility_from_surface (vol_surface (params self)) (spot (params self)) k
            (time_to_expiry self) (q_rate (params self)) (r_rate (params self)) = Inr vol" by blast
  from slope_adjustment_total[OF one wf] obtain a tr where
    a: "slope_adjustment_of self ct k = Inr (a, tr)" by blast
  show ?thesis
    unfolding calculate_def one py_index_single bind_Inr vol price_binary_option_CALL_PUT[OF ct] a Let_def
    by (cases "is_forward_starting (date_pricing (params self)) (date_start (params self))") simp_all
qed

lemma expiry_miss_total:
  assumes wf: "well_formed_surface (vol_surface (params self))"
  shows "\<exists>prob. calculate_expiry_miss_probability self lo hi = Inr prob"
proof -
  from get_volatility_total[OF wf] obtain vl where
    vl: "get_volatility_for_strike self lo = Inr vl" unfolding get_volatility_for_strike_def by blast
  from get_volatility_total[OF wf] obtain vh where
    vh: "get_volatility_for_strike self hi = Inr vh" unfolding get_volatility_for_strike_def by blast
  show ?thesis
    unfolding calculate_expiry_miss_probability_def vl vh by simp
qed

lemma base_probability_total:
  assumes len: "length (strikes (params self)) = 1 \<or> length (strikes (params self)) = 2"
    and ct: "length (strikes (params self)) = 1 \<longrightarrow> contract_type (params self) \<in> {CALL, PUT}"
    and wf: "well_formed_surface (vol_surface (params self))"
  shows "\<exists>base self'. calculate_base_probability self = Inr (base, self')
           \<and> params self' = params self \<and> time_to_expiry self' = time_to_expiry self
           \<and> risk_markup self' = risk_markup self"
proof (cases "length (strikes (params self)) = 2")
  case True
  then obtain a b where ab: "strikes (params self) = [a, b]"
    by (cases "strikes (params self)"; cases "tl (strikes (params self))") auto
  have s: "sort (strikes (params self)) = [min a b, max a b]"
    by (simp only: ab sort_two)
  from expiry_miss_total[OF wf] obtain m where
    m: "calculate_expiry_miss_probability self (min a b) (max a b) = Inr m" by blast
  show ?thesis
    unfolding calculate_base_probability_def calculate_two_barrier_probability_def s
    using True m
    by (simp add: calculate_expiry_range_probability_def Let_def)
next
  case False
  with len have l1: "length (strikes (params self)) = 1" by simp
  then obtain k where k: "strikes (params self) = [k]"
    by (cases "strikes (params self)") auto
  from ct l1 have cp: "contract_type (params self) \<in> {CALL, PUT}" by simp
  from get_volatility_total[OF wf] obtain vol where
    vol: "get_volatility_from_surface (vol_surface (params self)) (spot (params self)) k
            (time_to_expiry self) (q_rate (params self)) (r_rate (params self)) = Inr vol" by blast
  from calculate_total[OF k cp wf] obtain prob tr where
    c: "calculate self (contract_type (params self)) = Inr (prob, tr)" by blast
  show ?thesis
    unfolding calculate_base_probability_def calculate_numeraire_probability_def
      calculate_quanto_probability_def calculate_base_probability_with_vanilla_def
      k py_index_single bind_Inr vol c price_binary_option_CALL_PUT[OF cp] Let_def
    using False k by simp
qed

lemma delta_vega_total:
  assumes ne: "strikes (params self) \<noteq> []"
    and wf: "well_formed_surface (vol_surface (params self))"
  shows "\<exists>delta vega. calculate_delta self = Inr delta \<and> calculate_vega self = Inr vega"
proof -
  from ne obtain k rest where k: "strikes (params self) = k # rest"
    by (cases "strikes (params self)") auto
  have i: "py_index (k # rest) 0 = Inr k" by (simp add: py_index_def Let_def)
  from get_volatility_total[OF wf] obtain vol where
    vol: "get_volatility_for_strike self k = Inr vol" unfolding get_volatility_for_strike_def by blast
  show ?thesis
    unfolding calculate_delta_def calculate_vega_def k i bind_Inr vol by simp
qed

lemma example_lookup: "get_volatility_from_surface example_surface 1 1 (7 / 365) 0 0 = Inr (9 / 100)"
  by (simp add: example_surface_def get_volatility_from_surface_def py_min_key_def getitem_def
      py_min_def py_max_def py_index_def Let_def)

text \<open>
  C1. As stated (for every request that passes the validation of the constructor,
  \<open>calculate_probability\<close> returns \<open>max 0 (min 1 (base + markup))\<close>) the claim fails:
  a request of type \<open>EXPIRYMISS\<close> with one strike passes the validation and
  \<open>calculate_probability\<close> raises on it.
\<close>

theorem calculate_probability_counterexample:
  "init (example_request\<lparr>contract_type := EXPIRYMISS\<rparr>)
     = Inr (example_engine\<lparr>params := example_request\<lparr>contract_type := EXPIRYMISS\<rparr>\<rparr>)
   \<and> calculate_probability (example_engine\<lparr>params := example_request\<lparr>contract_type := EXPIRYMISS\<rparr>\<rparr>)
     = Inl (ValueError ''Unsupported contract type: ContractType.EXPIRYMISS'')"
proof -
  have i: "init (example_request\<lparr>contract_type := EXPIRYMISS\<rparr>)
     = Inr (example_engine\<lparr>params := example_request\<lparr>contract_type := EXPIRYMISS\<rparr>\<rparr>)"
    by (simp add: init_def validate_parameters_def ContractType_members_def
      PricingCurrency_members_def example_request_def example_engine_def
      calculate_time_to_expiry_def total_seconds_def is_forward_starting_def Let_def)
  have b: "calculate_base_probability (example_engine\<lparr>params := example_request\<lparr>contract_type := EXPIRYMISS\<rparr>\<rparr>)
     = Inl (ValueError ''Unsupported contract type: ContractType.EXPIRYMISS'')"
    using unsupported_base_probability
            [of "example_engine\<lparr>params := example_request\<lparr>contract_type := EXPIRYMISS\<rparr>\<rparr>" 1]
          example_lookup
    by (simp add: example_engine_def example_request_def)
  have c: "calculate_probability (example_engine\<lparr>params := example_request\<lparr>contract_type := EXPIRYMISS\<rparr>\<rparr>)
     = Inl (ValueError ''Unsupported contract type: ContractType.EXPIRYMISS'')"
    unfolding calculate_probability_def b bind_Inl ..
  from i c show ?thesis ..
qed

text \<open>
  C1, amended. For every request that passes the validation, whose contract type is
  \<open>CALL\<close> or \<open>PUT\<close> when it has one strike, with positive spot, strikes above the pip
  size, a well-formed surface and well-typed hour-end parameters:
  \<open>calculate_probability\<close> returns \<open>max 0 (min 1 (base + markup))\<close>, where \<open>base\<close> is
  the base probability and \<open>markup\<close> the total markup at the delta and vega of the
  contract, and the returned value lies in \<open>[0, 1]\<close>.
\<close>

theorem calculate_probability_spec:
  assumes init: "init p = Inr eng"
    and ct: "length (strikes p) = 1 \<longrightarrow> contract_type p \<in> {CALL, PUT}"
    and wf: "well_formed_surface (vol_surface p)"
    and wt: "hour_end_well_typed (hour_end_markup_parameters (rm_params (risk_markup eng)))"
    and pos: "0 < spot p"
    and strikes_pos: "\<forall>k \<in> set (strikes p). uc_pip_size (by_symbol (underlying_symbol p)) < k"
  shows "\<exists>base eng1 delta vega markup info eng2.
           calculate_base_probability eng = Inr (base, eng1)
         \<and> calculate_delta eng1 = Inr delta \<and> calculate_vega eng1 = Inr vega
         \<and> calculate_total_markup (risk_markup eng1) delta vega = Inr (markup, info)
         \<and> calculate_probability eng = Inr (max 0 (min 1 (base + markup)), eng2)
         \<and> 0 \<le> max 0 (min 1 (base + markup)) \<and> max 0 (min 1 (base + markup)) \<le> 1"
proof -
  from init have pe: "params eng = p"
    and len: "length (strikes p) = 1 \<or> length (strikes p) = 2"
    by (rule init_Inr)+
  from base_probability_total[of eng] len ct wf pe
  obtain base eng1 where b: "calculate_base_probability eng = Inr (base, eng1)"
    and p1: "params eng1 = params eng" and r1: "risk_markup eng1 = risk_markup eng"
    by auto
  have ne: "strikes (params eng1) \<noteq> []" using len p1 pe by auto
  have wf1: "well_formed_surface (vol_surface (params eng1))" using wf p1 pe by simp
  from delta_vega_total[OF ne wf1] obtain delta vega where
    d: "calculate_delta eng1 = Inr delta" and v: "calculate_vega eng1 = Inr vega" by blast
  from calculate_total_markup_total[of "risk_markup eng1" delta vega] wt r1
  obtain markup info where
    m: "calculate_total_markup (risk_markup eng1) delta vega = Inr (markup, info)" by auto
  have c: "calculate_probability eng
             = Inr (max 0 (min 1 (base + markup)),
                    eng1\<lparr>risk_markup := (risk_markup eng1)\<lparr>rm_debug_info := info\<rparr>\<rparr>)"
    unfolding calculate_probability_def b bind_Inr prod.case d v m Let_def ..
  have "0 \<le> max 0 (min 1 (base + markup))" "max 0 (min 1 (base + markup)) \<le> 1"
    by simp_all
  with b d v m c show ?thesis by blast
qed

theorem calculate_probability_spec_witness:
  "init example_request = Inr example_engine
   \<and> length (strikes example_request) = 1 \<and> contract_type example_request \<in> {CALL, PUT}
   \<and> well_formed_surface (vol_surface example_request)
   \<and> hour_end_well_typed (hour_end_markup_parameters (rm_params (risk_markup example_engine)))
   \<and> 0 < spot example_request
   \<and> strikes example_request = [1]
   \<and> uc_pip_size (by_symbol (underlying_symbol example_request)) < 1
   \<and> (\<exists>x eng2. calculate_probability example_engine = Inr (x, eng2) \<and> 0 \<le> x \<and> x \<le> 1)"
proof -
  have h1: "init example_request = Inr example_engine" by (rule init_example)
  have h2: "length (strikes example_request) = 1 \<longrightarrow> contract_type example_request \<in> {CALL, PUT}"
    by (simp add: example_request_def)
  have h3: "well_formed_surface (vol_surface example_request)"
    using example_surface_well_formed by (simp add: example_request_def)
  have h4: "hour_end_well_typed (hour_end_markup_parameters (rm_params (risk_markup example_engine)))"
    by (simp add: example_engine_def RiskMarkup_init_def MarkupParameters_default_def
        hour_end_well_typed_def)
  have h5: "0 < spot example_request" by (simp add: example_request_def)
  have h6: "\<forall>k \<in> set (strikes example_request).
         uc_pip_size (by_symbol (underlying_symbol example_request)) < k"
    using example_pip by (simp add: example_request_def)
  from calculate_probability_spec[OF h1 h2 h3 h4 h5 h6]
  have "\<exists>x eng2. calculate_probability example_engine = Inr (x, eng2) \<and> 0 \<le> x \<and> x \<le> 1"
    by blast
  moreover have "length (strikes example_request) = 1" "contract_type example_request \<in> {CALL, PUT}"
    "strikes example_request = [1]"
    "uc_pip_size (by_symbol (underlying_symbol example_request)) < 1"
    using example_pip by (simp_all add: example_request_def)
  ultimately show ?thesis using h1 h3 h4 h5 by blast
qed

end
